theory Spec2Isabelle
  imports Main "HOL-Library.AList"
begin

section \<open>Python values shared by the embedding\<close>

text \<open>
  Exceptions are values. The constructors are the Python exception classes that the
  modelled code raises itself or that the indexing and attribute operations it uses
  raise; the argument is the message. \<open>Failure\<close> stands for any other exception
  that a collaborator (a renderer, a unit's own calculation, a file reader) lets escape.
\<close>

datatype error =
    ValueError string
  | IndexError string
  | KeyError string
  | AttributeError string
  | Failure string


text \<open>
  A Python \<open>dict\<close> keeps its keys in insertion order, and assigning to a key that is
  already present replaces the value where the key stands. An association list with
  \<open>AList.update\<close> behaves the same way.
\<close>

type_synonym ('k, 'v) dict = "('k \<times> 'v) list"

definition dict_set :: "'k \<Rightarrow> 'v \<Rightarrow> ('k, 'v) dict \<Rightarrow> ('k, 'v) dict" where
  "dict_set k v d = AList.update k v d"

definition dict_get :: "('k, 'v) dict \<Rightarrow> 'k \<Rightarrow> 'v option" where
  "dict_get d k = map_of d k"

definition dict_keys :: "('k, 'v) dict \<Rightarrow> 'k list" where
  "dict_keys d = map fst d"

definition dict_values :: "('k, 'v) dict \<Rightarrow> 'v list" where
  "dict_values d = map snd d"

section \<open>experimental/monitors.py: the time-series loader\<close>

text \<open>
  \<open>os.path.join\<close> for two components on a POSIX system.
\<close>

definition os_path_join :: "string \<Rightarrow> string \<Rightarrow> string" where
  "os_path_join path file =
     (if file \<noteq> [] \<and> hd file = CHR ''/'' then file
      else if path = [] \<or> last path = CHR ''/'' then path @ file
      else path @ ''/'' @ file)"

text \<open>
  The skip tests of \<open>load_time_series_data\<close>: \<open>date_from is not None and
  suite.timestamp < date_from\<close> and \<open>date_to is not None and suite.timestamp > date_to\<close>.
\<close>

definition before_date_from :: "('t::linorder) option \<Rightarrow> 't \<Rightarrow> bool" where
  "before_date_from date_from t = (case date_from of None \<Rightarrow> False | Some d \<Rightarrow> t < d)"

definition after_date_to :: "('t::linorder) option \<Rightarrow> 't \<Rightarrow> bool" where
  "after_date_to date_to t = (case date_to of None \<Rightarrow> False | Some d \<Rightarrow> t > d)"

text \<open>
  The loop of \<open>load_time_series_data\<close> over the directory listing. \<open>cls_load\<close> is
  \<open>cls._load\<close> (it reads and restores one file and may raise), \<open>timestamp_of\<close> reads
  \<open>suite.timestamp\<close>. An exception of \<open>cls._load\<close> leaves the loop.
\<close>

fun load_files ::
  "(string \<Rightarrow> error + 's) \<Rightarrow> ('s \<Rightarrow> 't::linorder) \<Rightarrow> string \<Rightarrow> 't option \<Rightarrow> 't option
     \<Rightarrow> string list \<Rightarrow> ('t, 's) dict \<Rightarrow> error + ('t, 's) dict" where
  "load_files cls_load timestamp_of path date_from date_to [] result = Inr result"
| "load_files cls_load timestamp_of path date_from date_to (file # files) result =
     (let filepath = os_path_join path file in
      case cls_load filepath of
        Inl e \<Rightarrow> Inl e
      | Inr suite \<Rightarrow>
          if before_date_from date_from (timestamp_of suite) then
            load_files cls_load timestamp_of path date_from date_to files result
          else if after_date_to date_to (timestamp_of suite) then
            load_files cls_load timestamp_of path date_from date_to files result
          else
            load_files cls_load timestamp_of path date_from date_to files
              (dict_set (timestamp_of suite) suite result))"

text \<open>
  \<open>load_time_series_data(path, cls, date_from, date_to)\<close>. \<open>listdir\<close> is
  \<open>os.listdir\<close>: the file names of the directory in the order the system lists them,
  or an exception.
\<close>

definition load_time_series_data ::
  "(string \<Rightarrow> error + string list) \<Rightarrow> (string \<Rightarrow> error + 's) \<Rightarrow> ('s \<Rightarrow> 't::linorder)
     \<Rightarrow> string \<Rightarrow> 't option \<Rightarrow> 't option \<Rightarrow> error + ('t, 's) dict" where
  "load_time_series_data listdir cls_load timestamp_of path date_from date_to =
     (case listdir path of
        Inl e \<Rightarrow> Inl e
      | Inr files \<Rightarrow> load_files cls_load timestamp_of path date_from date_to files [])"

text \<open>The bound of the specification: \<open>date_from \<le> t \<le> date_to\<close>, an absent bound being no bound.\<close>

definition in_range :: "('t::linorder) option \<Rightarrow> 't option \<Rightarrow> 't \<Rightarrow> bool" where
  "in_range date_from date_to t =
     ((case date_from of None \<Rightarrow> True | Some d \<Rightarrow> d \<le> t) \<and>
      (case date_to of None \<Rightarrow> True | Some d \<Rightarrow> t \<le> d))"

text \<open>
  What one iteration of the loop does to the result when the file has been read:
  the snapshot is stored under its timestamp when it is within the bounds.
\<close>

definition keep_step ::
  "('s \<Rightarrow> 't::linorder) \<Rightarrow> 't option \<Rightarrow> 't option \<Rightarrow> 's \<Rightarrow> ('t, 's) dict \<Rightarrow> ('t, 's) dict" where
  "keep_step timestamp_of date_from date_to s d =
     (if in_range date_from date_to (timestamp_of s) then dict_set (timestamp_of s) s d else d)"

section \<open>report/report.py: the objects a Report holds\<close>

text \<open>
  A Python object that a generator or a preset hands back: an instance of \<open>Metric\<close>,
  or anything else. \<open>isinstance(x, Metric)\<close> is the test for the first constructor. A
  metric \<open>'m\<close> is its identity, the class together with the constructor arguments: two
  metric objects are equal (\<open>==\<close>, \<open>in\<close>, \<open>list.index\<close>, dict keys) when their identities
  are.
\<close>

datatype 'm pyobj = MetricObj 'm | OtherObj string

fun isinstance_Metric :: "'m pyobj \<Rightarrow> bool" where
  "isinstance_Metric (MetricObj _) = True"
| "isinstance_Metric (OtherObj _) = False"

text \<open>
  A \<open>BaseGenerator\<close>: its class name, the text \<open>str\<close> gives for it (used in the error
  message), and \<open>generate(columns_info=...)\<close>.
\<close>

datatype ('m, 'c) generator =
  BaseGenerator (gen_class: string) (gen_str: string) (generate: "'c \<Rightarrow> 'm pyobj list")

text \<open>
  What \<open>MetricPreset.generate_metrics(data=..., columns=...)\<close> returns: a list whose
  elements are tested with \<open>isinstance(metric_item, BaseGenerator)\<close>.
\<close>

datatype ('m, 'c) preset_item =
    PresetGenerator "('m, 'c) generator"
  | PresetObj "'m pyobj"

datatype ('m, 'c, 'i) metric_preset =
  MetricPreset (preset_class: string) (generate_metrics: "'i \<Rightarrow> 'c \<Rightarrow> ('m, 'c) preset_item list")

text \<open>
  An element of \<open>Report.metrics\<close>, classified as the \<open>isinstance\<close> chain of \<open>run\<close>
  does: generator, preset, metric, anything else.
\<close>

datatype ('m, 'c, 'i) item =
    GeneratorItem "('m, 'c) generator"
  | PresetItem "('m, 'c, 'i) metric_preset"
  | MetricItem 'm
  | OtherItem string

text \<open>\<open>MetadataValueType = Union[str, Dict[str, str], List[str]]\<close>.\<close>

datatype metadata_value =
    MStr string
  | MDict "(string, string) dict"
  | MList "string list"

definition METRIC_GENERATORS :: string where
  "METRIC_GENERATORS = ''metric_generators''"

definition METRIC_PRESETS :: string where
  "METRIC_PRESETS = ''metric_presets''"

text \<open>\<open>InputData(reference_data, current_data, reference_additional_features,
  current_additional_features, column_mapping, data_definition)\<close>.\<close>

record ('d, 'k, 'dd) input_data =
  reference_data :: "'d option"
  current_data :: "'d"
  reference_additional_features :: "'d option"
  current_additional_features :: "'d option"
  column_mapping :: "'k"
  data_definition :: "'dd"

text \<open>
  The state of a \<open>Report\<close> instance. \<open>metrics\<close> is the configured list and
  \<open>first_level_metrics\<close> is \<open>_first_level_metrics\<close>; the two are different list objects,
  as they are for every Report built by the constructor below from a caller's list.
\<close>

record ('m, 'c, 'i, 's, 'ts, 'opt) report =
  metrics :: "('m, 'c, 'i) item list"
  inner_suite :: "'s"
  first_level_metrics :: "'m pyobj list"
  report_id :: string
  timestamp :: "'ts"
  metadata :: "(string, metadata_value) dict"
  tags :: "string list"
  options :: "'opt"
  columns_info :: "'c option"

text \<open>
  The collaborators \<open>run\<close> and the constructor call; none of them is in the sources, so
  each is a parameter: \<open>process_columns\<close>, \<open>create_data_definition\<close>, the default
  \<open>ColumnMapping()\<close>, \<open>uuid.uuid4()\<close>, the clock, the default options, and the
  constructor and methods of \<open>Suite\<close>. The preparation of the data and the
  bookkeeping of the Suite are taken to return; \<open>run_calculate\<close> returns the Suite it
  leaves behind and the exception of a unit's calculation, if any.
\<close>

record ('m, 's, 'd, 'k, 'c, 'dd, 'ts, 'opt) collaborators =
  process_columns :: "'d \<Rightarrow> 'k \<Rightarrow> 'c"
  default_column_mapping :: "'k"
  create_data_definition :: "'d option \<Rightarrow> 'd \<Rightarrow> 'k \<Rightarrow> 'dd"
  uuid4 :: string
  now :: "'ts"
  default_options :: "'opt"
  new_suite :: "'opt \<Rightarrow> 's"
  reset :: "'s \<Rightarrow> 's"
  verify :: "'s \<Rightarrow> 's"
  add_metric :: "'s \<Rightarrow> 'm pyobj \<Rightarrow> 's"
  create_additional_features :: "'s \<Rightarrow> 'd \<Rightarrow> 'd option \<Rightarrow> 'dd \<Rightarrow> 'd option \<times> 'd option"
  run_calculate :: "'s \<Rightarrow> ('d, 'k, 'dd) input_data \<Rightarrow> 's \<times> error option"

section \<open>report/report.py: construction\<close>

text \<open>
  Modelled from the spec: \<open>ReportBase.__init__(options, timestamp)\<close> is not in the
  sources. The specification has options and timestamp attached at creation; an absent
  value is the default options, respectively the clock's time.
\<close>

definition ReportBase_init :: "'opt \<Rightarrow> 'ts \<Rightarrow> 'opt option \<Rightarrow> 'ts option \<Rightarrow> 'opt \<times> 'ts" where
  "ReportBase_init dflt clock opts ts =
     ((case opts of None \<Rightarrow> dflt | Some o' \<Rightarrow> o'),
      (case ts of None \<Rightarrow> clock | Some t \<Rightarrow> t))"

definition set_batch_size ::
  "string \<Rightarrow> ('m, 'c, 'i, 's, 'ts, 'opt) report \<Rightarrow> ('m, 'c, 'i, 's, 'ts, 'opt) report" where
  "set_batch_size batch_size self =
     self\<lparr>metadata := dict_set ''batch_size'' (MStr batch_size) (metadata self)\<rparr>"

definition set_model_id ::
  "string \<Rightarrow> ('m, 'c, 'i, 's, 'ts, 'opt) report \<Rightarrow> ('m, 'c, 'i, 's, 'ts, 'opt) report" where
  "set_model_id model_id self =
     self\<lparr>metadata := dict_set ''model_id'' (MStr model_id) (metadata self)\<rparr>"

definition set_reference_id ::
  "string \<Rightarrow> ('m, 'c, 'i, 's, 'ts, 'opt) report \<Rightarrow> ('m, 'c, 'i, 's, 'ts, 'opt) report" where
  "set_reference_id reference_id self =
     self\<lparr>metadata := dict_set ''reference_id'' (MStr reference_id) (metadata self)\<rparr>"

definition set_dataset_id ::
  "string \<Rightarrow> ('m, 'c, 'i, 's, 'ts, 'opt) report \<Rightarrow> ('m, 'c, 'i, 's, 'ts, 'opt) report" where
  "set_dataset_id dataset_id self =
     self\<lparr>metadata := dict_set ''dataset_id'' (MStr dataset_id) (metadata self)\<rparr>"

text \<open>
  \<open>Report.__init__\<close>. \<open>id or uuid.uuid4()\<close> keeps a given id (a UUID is never falsy);
  \<open>metadata or {}\<close> and \<open>tags or []\<close> replace an absent or empty value by an empty one.
\<close>

definition Report_init ::
  "('m, 's, 'd, 'k, 'c, 'dd, 'ts, 'opt) collaborators \<Rightarrow> ('m, 'c, 'i) item list \<Rightarrow> 'opt option
     \<Rightarrow> 'ts option \<Rightarrow> string option \<Rightarrow> (string, metadata_value) dict option
     \<Rightarrow> string list option \<Rightarrow> string option \<Rightarrow> string option \<Rightarrow> string option
     \<Rightarrow> string option \<Rightarrow> ('m, 'c, 'i, 's, 'ts, 'opt) report" where
  "Report_init env metrics_arg options_arg timestamp_arg id_arg metadata_arg tags_arg
       model_id reference_id batch_size dataset_id =
     (let (opts, ts) = ReportBase_init (default_options env) (now env) options_arg timestamp_arg;
          self0 = \<lparr>metrics = metrics_arg,
                   inner_suite = new_suite env opts,
                   first_level_metrics = [],
                   report_id = (case id_arg of None \<Rightarrow> uuid4 env | Some i \<Rightarrow> i),
                   timestamp = ts,
                   metadata = (case metadata_arg of None \<Rightarrow> [] | Some m \<Rightarrow> m),
                   tags = (case tags_arg of None \<Rightarrow> [] | Some t \<Rightarrow> t),
                   options = opts,
                   columns_info = None\<rparr>;
          self1 = (case model_id of None \<Rightarrow> self0 | Some x \<Rightarrow> set_model_id x self0);
          self2 = (case batch_size of None \<Rightarrow> self1 | Some x \<Rightarrow> set_batch_size x self1);
          self3 = (case reference_id of None \<Rightarrow> self2 | Some x \<Rightarrow> set_reference_id x self2)
      in (case dataset_id of None \<Rightarrow> self3 | Some x \<Rightarrow> set_dataset_id x self3))"

section \<open>report/report.py: run\<close>

text \<open>
  The two statements \<open>self._first_level_metrics.append(metric)\<close> and
  \<open>self._inner_suite.add_metric(metric)\<close>.
\<close>

definition register ::
  "('m, 's, 'd, 'k, 'c, 'dd, 'ts, 'opt) collaborators \<Rightarrow> 'm pyobj
     \<Rightarrow> ('m, 'c, 'i, 's, 'ts, 'opt) report \<Rightarrow> ('m, 'c, 'i, 's, 'ts, 'opt) report" where
  "register env metric self =
     self\<lparr>first_level_metrics := first_level_metrics self @ [metric],
          inner_suite := add_metric env (inner_suite self) metric\<rparr>"

text \<open>
  The loop over \<open>item.generate(columns_info=self._columns_info)\<close> of the generator
  branch. The exception leaves the loop with the Report as the iterations before it
  left it; Python does not undo the appends.
\<close>

fun generated_loop ::
  "('m, 's, 'd, 'k, 'c, 'dd, 'ts, 'opt) collaborators \<Rightarrow> ('m, 'c) generator \<Rightarrow> 'm pyobj list
     \<Rightarrow> ('m, 'c, 'i, 's, 'ts, 'opt) report
     \<Rightarrow> ('m, 'c, 'i, 's, 'ts, 'opt) report \<times> error option" where
  "generated_loop env item [] self = (self, None)"
| "generated_loop env item (metric # rest) self =
     (if isinstance_Metric metric then generated_loop env item rest (register env metric self)
      else (self, Some (ValueError (''Incorrect metric type in generator '' @ gen_str item))))"

text \<open>
  \<open>if KEY not in self.metadata: self.metadata[KEY] = []\<close> followed by
  \<open>self.metadata[KEY].append(name)\<close>. A value stored under the key by the caller that is
  a \<open>str\<close> or a \<open>dict\<close> has no \<open>append\<close>.
\<close>

definition record_name ::
  "string \<Rightarrow> string \<Rightarrow> ('m, 'c, 'i, 's, 'ts, 'opt) report
     \<Rightarrow> ('m, 'c, 'i, 's, 'ts, 'opt) report \<times> error option" where
  "record_name key name self =
     (let md = (if key \<notin> set (dict_keys (metadata self))
                then dict_set key (MList []) (metadata self) else metadata self)
      in case dict_get md key of
           Some (MList names) \<Rightarrow> (self\<lparr>metadata := dict_set key (MList (names @ [name])) md\<rparr>, None)
         | Some (MStr _) \<Rightarrow>
             (self\<lparr>metadata := md\<rparr>, Some (AttributeError ''str object has no attribute append''))
         | Some (MDict _) \<Rightarrow>
             (self\<lparr>metadata := md\<rparr>, Some (AttributeError ''dict object has no attribute append''))
         | None \<Rightarrow> (self\<lparr>metadata := md\<rparr>, Some (KeyError key)))"

text \<open>
  The first loop of the preset branch, building the local list \<open>metrics\<close>: a nested
  generator is expanded with \<open>extend\<close>, anything else is appended. Nothing is tested here.
\<close>

fun preset_metrics :: "'c \<Rightarrow> ('m, 'c) preset_item list \<Rightarrow> 'm pyobj list" where
  "preset_metrics cols [] = []"
| "preset_metrics cols (PresetGenerator g # rest) = generate g cols @ preset_metrics cols rest"
| "preset_metrics cols (PresetObj x # rest) = x # preset_metrics cols rest"

text \<open>The second loop of the preset branch: \<open>for metric in metrics\<close>.\<close>

fun register_all ::
  "('m, 's, 'd, 'k, 'c, 'dd, 'ts, 'opt) collaborators \<Rightarrow> 'm pyobj list
     \<Rightarrow> ('m, 'c, 'i, 's, 'ts, 'opt) report \<Rightarrow> ('m, 'c, 'i, 's, 'ts, 'opt) report" where
  "register_all env [] self = self"
| "register_all env (metric # rest) self = register_all env rest (register env metric self)"

text \<open>One iteration of \<open>for item in self.metrics\<close>.\<close>

fun run_item ::
  "('m, 's, 'd, 'k, 'c, 'dd, 'ts, 'opt) collaborators \<Rightarrow> 'i \<Rightarrow> 'c \<Rightarrow> ('m, 'c, 'i) item
     \<Rightarrow> ('m, 'c, 'i, 's, 'ts, 'opt) report
     \<Rightarrow> ('m, 'c, 'i, 's, 'ts, 'opt) report \<times> error option" where
  "run_item env data cols (GeneratorItem g) self =
     (case generated_loop env g (generate g cols) self of
        (self', Some e) \<Rightarrow> (self', Some e)
      | (self', None) \<Rightarrow> record_name METRIC_GENERATORS (gen_class g) self')"
| "run_item env data cols (PresetItem p) self =
     record_name METRIC_PRESETS (preset_class p)
       (register_all env (preset_metrics cols (generate_metrics p data cols)) self)"
| "run_item env data cols (MetricItem m) self = (register env (MetricObj m) self, None)"
| "run_item env data cols (OtherItem x) self =
     (self, Some (ValueError
        ''Incorrect item instead of a metric or metric preset was passed to Report''))"

fun run_items ::
  "('m, 's, 'd, 'k, 'c, 'dd, 'ts, 'opt) collaborators \<Rightarrow> 'i \<Rightarrow> 'c \<Rightarrow> ('m, 'c, 'i) item list
     \<Rightarrow> ('m, 'c, 'i, 's, 'ts, 'opt) report
     \<Rightarrow> ('m, 'c, 'i, 's, 'ts, 'opt) report \<times> error option" where
  "run_items env data cols [] self = (self, None)"
| "run_items env data cols (item # rest) self =
     (case run_item env data cols item self of
        (self', Some e) \<Rightarrow> (self', Some e)
      | (self', None) \<Rightarrow> run_items env data cols rest self')"

text \<open>
  The Report as \<open>run\<close> has it when the loop over \<open>self.metrics\<close> starts:
  \<open>_columns_info\<close> is set, the Suite is reset and verified.
\<close>

definition run_prepare ::
  "('m, 's, 'd, 'k, 'c, 'dd, 'ts, 'opt) collaborators \<Rightarrow> 'd \<Rightarrow> 'k
     \<Rightarrow> ('m, 'c, 'i, 's, 'ts, 'opt) report \<Rightarrow> ('m, 'c, 'i, 's, 'ts, 'opt) report" where
  "run_prepare env current column_mapping_arg self =
     self\<lparr>columns_info := Some (process_columns env current column_mapping_arg),
          inner_suite := verify env (reset env (inner_suite self))\<rparr>"

text \<open>
  The first \<open>InputData\<close> of \<open>run\<close>, which the presets get: no additional features yet.
\<close>

definition first_input_data ::
  "('m, 's, 'd, 'k, 'c, 'dd, 'ts, 'opt) collaborators \<Rightarrow> 'd option \<Rightarrow> 'd \<Rightarrow> 'k
     \<Rightarrow> ('d, 'k, 'dd) input_data" where
  "first_input_data env reference_arg current cm =
     \<lparr>reference_data = reference_arg, current_data = current,
      reference_additional_features = None, current_additional_features = None,
      column_mapping = cm, data_definition = create_data_definition env reference_arg current cm\<rparr>"

text \<open>
  The end of \<open>run\<close>, after the loop: the second \<open>InputData\<close> with the additional
  features of the Suite, and \<open>run_calculate\<close>.
\<close>

definition run_finish ::
  "('m, 's, 'd, 'k, 'c, 'dd, 'ts, 'opt) collaborators \<Rightarrow> 'd option \<Rightarrow> 'd \<Rightarrow> 'k
     \<Rightarrow> ('m, 'c, 'i, 's, 'ts, 'opt) report
     \<Rightarrow> ('m, 'c, 'i, 's, 'ts, 'opt) report \<times> error option" where
  "run_finish env reference_arg current cm self =
     (let dd = create_data_definition env reference_arg current cm;
          (curr_add, ref_add) =
             create_additional_features env (inner_suite self) current reference_arg dd;
          data = \<lparr>reference_data = reference_arg, current_data = current,
                  reference_additional_features = ref_add,
                  current_additional_features = curr_add,
                  column_mapping = cm, data_definition = dd\<rparr>;
          (suite', err) = run_calculate env (inner_suite self) data
      in (self\<lparr>inner_suite := suite'\<rparr>, err))"

text \<open>\<open>column_mapping\<close> after \<open>if column_mapping is None: column_mapping = ColumnMapping()\<close>.\<close>

definition column_mapping_or_default ::
  "('m, 's, 'd, 'k, 'c, 'dd, 'ts, 'opt) collaborators \<Rightarrow> 'k option \<Rightarrow> 'k" where
  "column_mapping_or_default env column_mapping_arg =
     (case column_mapping_arg of None \<Rightarrow> default_column_mapping env | Some k \<Rightarrow> k)"

text \<open>
  \<open>Report.run(reference_data=..., current_data=..., column_mapping=...)\<close>. The result is
  the Report after the call and the exception that left it, if any.
\<close>

definition run ::
  "('m, 's, 'd, 'k, 'c, 'dd, 'ts, 'opt) collaborators
     \<Rightarrow> ('m, 'c, ('d, 'k, 'dd) input_data, 's, 'ts, 'opt) report
     \<Rightarrow> 'd option \<Rightarrow> 'd option \<Rightarrow> 'k option
     \<Rightarrow> ('m, 'c, ('d, 'k, 'dd) input_data, 's, 'ts, 'opt) report \<times> error option" where
  "run env self reference_arg current_arg column_mapping_arg =
     (let cm = column_mapping_or_default env column_mapping_arg in
      case current_arg of
        None \<Rightarrow> (self, Some (ValueError ''Current dataset should be present''))
      | Some current \<Rightarrow>
          (let self1 = run_prepare env current cm self;
               data = first_input_data env reference_arg current cm
           in case run_items env data (process_columns env current cm) (metrics self1) self1 of
                (self2, Some e) \<Rightarrow> (self2, Some e)
              | (self2, None) \<Rightarrow> run_finish env reference_arg current cm self2))"

section \<open>The Suite and its Context\<close>

text \<open>
  The attributes of \<open>Suite.context\<close> that the modelled code reads: the unit list
  \<open>context.metrics\<close>, the results by unit, and \<open>context.renderers\<close>.
\<close>

record ('o, 'r, 'rs) Context =
  ctx_metrics :: "'o list"
  metric_results :: "'o \<rightharpoonup> 'r"
  renderers :: "'rs"

datatype suite_state = UNINITIALIZED | RESET | VERIFIED | RUNNING | COMPLETE

record ('o, 'r, 'rs) suite =
  suite_context :: "('o, 'r, 'rs) Context"
  state :: suite_state

text \<open>
  Modelled from the spec: the class \<open>Suite\<close> (\<open>suite/base_suite.py\<close>) is not in the
  sources. A new Suite has no unit and no result and looks renderers up in the
  registry of the process.
\<close>

definition Suite_init :: "'rs \<Rightarrow> ('o, 'r, 'rs) suite" where
  "Suite_init registry =
     \<lparr>suite_context = \<lparr>ctx_metrics = [], metric_results = Map.empty, renderers = registry\<rparr>,
      state = UNINITIALIZED\<rparr>"

text \<open>
  Modelled from the spec: \<open>Suite.reset\<close> is not in the sources. The specification
  has reset clear the Context, the unit list being rebuilt from the expansion.
\<close>

definition Suite_reset :: "('o, 'r, 'rs) suite \<Rightarrow> ('o, 'r, 'rs) suite" where
  "Suite_reset s =
     s\<lparr>suite_context := (suite_context s)\<lparr>ctx_metrics := [], metric_results := Map.empty\<rparr>, state := RESET\<rparr>"

text \<open>Modelled from the spec: \<open>Suite.verify\<close> is not in the sources; it moves the state machine on.\<close>

definition Suite_verify :: "('o, 'r, 'rs) suite \<Rightarrow> ('o, 'r, 'rs) suite" where
  "Suite_verify s = s\<lparr>state := VERIFIED\<rparr>"

text \<open>
  Modelled from the spec: \<open>Suite.add_metric\<close> is not in the sources. The Suite's
  units are in insertion order and a unit appears at most once.
\<close>

definition Suite_add_metric :: "('o, 'r, 'rs) suite \<Rightarrow> 'o \<Rightarrow> ('o, 'r, 'rs) suite" where
  "Suite_add_metric s metric =
     (if metric \<in> set (ctx_metrics (suite_context s)) then s
      else s\<lparr>suite_context := (suite_context s)\<lparr>ctx_metrics := ctx_metrics (suite_context s) @ [metric]\<rparr>\<rparr>)"

text \<open>
  Modelled from the spec: \<open>Suite.run_calculate\<close> is not in the sources. Every unit is
  computed through the Context in insertion order, a unit that has its Result is not
  computed again, and a failing calculation is propagated. \<open>calculate\<close> is a unit's own
  computation; it sees the results computed before it.
\<close>

fun calculate_units ::
  "('o \<Rightarrow> 'i \<Rightarrow> ('o \<rightharpoonup> 'r) \<Rightarrow> error + 'r) \<Rightarrow> 'i \<Rightarrow> 'o list \<Rightarrow> ('o \<rightharpoonup> 'r)
     \<Rightarrow> ('o \<rightharpoonup> 'r) \<times> error option" where
  "calculate_units calculate data [] results = (results, None)"
| "calculate_units calculate data (unit # rest) results =
     (case results unit of
        Some _ \<Rightarrow> calculate_units calculate data rest results
      | None \<Rightarrow>
          (case calculate unit data results of
             Inl e \<Rightarrow> (results, Some e)
           | Inr r \<Rightarrow> calculate_units calculate data rest (results(unit \<mapsto> r))))"

definition Suite_run_calculate ::
  "('o \<Rightarrow> 'i \<Rightarrow> ('o \<rightharpoonup> 'r) \<Rightarrow> error + 'r) \<Rightarrow> ('o, 'r, 'rs) suite \<Rightarrow> 'i
     \<Rightarrow> ('o, 'r, 'rs) suite \<times> error option" where
  "Suite_run_calculate calculate s data =
     (case calculate_units calculate data (ctx_metrics (suite_context s)) (metric_results (suite_context s)) of
        (results, Some e) \<Rightarrow>
          (s\<lparr>suite_context := (suite_context s)\<lparr>metric_results := results\<rparr>, state := RUNNING\<rparr>, Some e)
      | (results, None) \<Rightarrow>
          (s\<lparr>suite_context := (suite_context s)\<lparr>metric_results := results\<rparr>, state := COMPLETE\<rparr>, None))"

section \<open>report/report.py: the read views\<close>

text \<open>
  A renderer as \<open>find_metric_renderer\<close> returns it. \<open>render_json\<close> and
  \<open>render_pandas\<close> read the Result of the unit (and of the units it refers to) from the
  Context the unit is bound to, which for a first-level unit of a Report is the Context
  of the Report's Suite; the renderer gets that Context as an argument.
\<close>

record ('o, 'r, 'rs, 'df, 'js, 'inc) renderer =
  render_json :: "('o, 'r, 'rs) Context \<Rightarrow> 'o \<Rightarrow> bool \<Rightarrow> 'inc option \<Rightarrow> 'inc option \<Rightarrow> error + 'js"
  render_pandas :: "('o, 'r, 'rs) Context \<Rightarrow> 'o \<Rightarrow> error + 'df"

text \<open>
  The collaborators of the read views, none of them in the sources:
  \<open>find_metric_renderer(type(metric), renderers)\<close>, which raises when the registry has
  no renderer for the type, \<open>metric.get_id()\<close> and \<open>pd.concat\<close>.
\<close>

record ('o, 'r, 'rs, 'df, 'js, 'inc) rendering =
  find_metric_renderer :: "'rs \<Rightarrow> 'o \<Rightarrow> error + ('o, 'r, 'rs, 'df, 'js, 'inc) renderer"
  get_id :: "'o \<Rightarrow> string"
  pd_concat :: "'df list \<Rightarrow> 'df"



text \<open>\<open>metrics[metric_id].append(df)\<close> on a \<open>defaultdict(list)\<close>.\<close>

definition defaultdict_append :: "'k \<Rightarrow> 'v \<Rightarrow> ('k, 'v list) dict \<Rightarrow> ('k, 'v list) dict" where
  "defaultdict_append k v d =
     dict_set k ((case dict_get d k of None \<Rightarrow> [] | Some vs \<Rightarrow> vs) @ [v]) d"

text \<open>The loop of \<open>as_pandas\<close>.\<close>

fun as_pandas_loop ::
  "('o, 'r, 'rs, 'df, 'js, 'inc) rendering \<Rightarrow> ('o, 'r, 'rs) Context \<Rightarrow> string option
     \<Rightarrow> 'o list \<Rightarrow> (string, 'df list) dict \<Rightarrow> error + (string, 'df list) dict" where
  "as_pandas_loop R ctx group_arg [] acc = Inr acc"
| "as_pandas_loop R ctx group_arg (metric # rest) acc =
     (case find_metric_renderer R (renderers ctx) metric of
        Inl e \<Rightarrow> Inl e
      | Inr renderer \<Rightarrow>
          (let metric_id = get_id R metric in
           if group_arg \<noteq> None \<and> Some metric_id \<noteq> group_arg then as_pandas_loop R ctx group_arg rest acc
           else
             (case render_pandas renderer ctx metric of
                Inl e \<Rightarrow> Inl e
              | Inr df \<Rightarrow> as_pandas_loop R ctx group_arg rest (defaultdict_append metric_id df acc))))"

text \<open>What \<open>as_pandas\<close> returns: \<open>Union[Dict[str, pd.DataFrame], pd.DataFrame]\<close>.\<close>

datatype 'df pandas_result = DataFrame 'df | FrameDict "(string, 'df) dict"

text \<open>\<open>Report.as_pandas(group)\<close>.\<close>

definition as_pandas ::
  "('m pyobj, 'r, 'rs, 'df, 'js, 'inc) rendering
     \<Rightarrow> ('m, 'c, 'i, ('m pyobj, 'r, 'rs) suite, 'ts, 'opt) report \<Rightarrow> string option
     \<Rightarrow> error + 'df pandas_result" where
  "as_pandas R self group_arg =
     (case as_pandas_loop R (suite_context (inner_suite self)) group_arg (first_level_metrics self) [] of
        Inl e \<Rightarrow> Inl e
      | Inr grouped \<Rightarrow>
          (let result = map (\<lambda>(cls, val). (cls, pd_concat R val)) grouped in
           if group_arg = None \<and> length result = 1 then
             (case dict_values result of
                df # _ \<Rightarrow> Inr (DataFrame df)
              | [] \<Rightarrow> Inl (Failure ''StopIteration''))
           else
             (case group_arg of
                None \<Rightarrow> Inr (FrameDict result)
              | Some g \<Rightarrow>
                  if g \<notin> set (dict_keys result) then
                    Inl (ValueError (''Metric group '' @ g @ '' not found in this report''))
                  else
                    (case dict_get result g of
                       Some df \<Rightarrow> Inr (DataFrame df)
                     | None \<Rightarrow> Inl (KeyError g)))))"

section \<open>report/report.py: snapshots\<close>













section \<open>experimental/monitors.py: results by unit across snapshots\<close>








section \<open>Notions for stating the read views\<close>

text \<open>
  What \<open>as_pandas\<close> obtains for one unit: the renderer is looked up, then it renders.
  \<open>frames_of R k ms dfs\<close> are the tables, out of \<open>dfs\<close>, of the units of \<open>ms\<close> whose
  identifier is \<open>k\<close>, in the order of \<open>ms\<close>. \<open>selected\<close> is the test that does not
  \<open>continue\<close>, and \<open>group_step\<close> is one iteration of the loop for a unit that rendered.
\<close>

definition rendered_pandas ::
  "('o, 'r, 'rs, 'df, 'js, 'inc) rendering \<Rightarrow> ('o, 'r, 'rs) Context \<Rightarrow> 'o \<Rightarrow> error + 'df" where
  "rendered_pandas R ctx metric =
     (case find_metric_renderer R (renderers ctx) metric of
        Inl e \<Rightarrow> Inl e
      | Inr renderer \<Rightarrow> render_pandas renderer ctx metric)"

definition frames_of ::
  "('o, 'r, 'rs, 'df, 'js, 'inc) rendering \<Rightarrow> string \<Rightarrow> 'o list \<Rightarrow> 'df list \<Rightarrow> 'df list" where
  "frames_of R k ms dfs = map snd (filter (\<lambda>p. get_id R (fst p) = k) (zip ms dfs))"

definition selected :: "('o, 'r, 'rs, 'df, 'js, 'inc) rendering \<Rightarrow> string option \<Rightarrow> 'o \<Rightarrow> bool" where
  "selected R g m = (g = None \<or> g = Some (get_id R m))"

definition group_step ::
  "('o, 'r, 'rs, 'df, 'js, 'inc) rendering \<Rightarrow> string option \<Rightarrow> 'o \<times> 'df
     \<Rightarrow> (string, 'df list) dict \<Rightarrow> (string, 'df list) dict" where
  "group_step R g p acc =
     (if selected R g (fst p) then defaultdict_append (get_id R (fst p)) (snd p) acc else acc)"

section \<open>The expansion of a configuration\<close>

text \<open>
  What one element of the configuration contributes to the first-level list when its
  iteration raises nothing, and the concatenation over the configuration.
\<close>

fun expand_item :: "'i \<Rightarrow> 'c \<Rightarrow> ('m, 'c, 'i) item \<Rightarrow> 'm pyobj list" where
  "expand_item data cols (GeneratorItem g) = generate g cols"
| "expand_item data cols (PresetItem p) = preset_metrics cols (generate_metrics p data cols)"
| "expand_item data cols (MetricItem m) = [MetricObj m]"
| "expand_item data cols (OtherItem x) = []"

definition expand_items :: "'i \<Rightarrow> 'c \<Rightarrow> ('m, 'c, 'i) item list \<Rightarrow> 'm pyobj list" where
  "expand_items data cols items = concat (map (expand_item data cols) items)"

section \<open>Notions for stating the results by unit\<close>



section \<open>Example inputs\<close>

text \<open>
  Two snapshot directories. In \<open>snapshots\<close> the files \<open>a.json\<close> and \<open>b.json\<close> carry the
  same timestamp; in \<open>daily\<close> all timestamps differ. A snapshot is shown as the pair of
  its timestamp and a name.
\<close>

definition example_listdir :: "string \<Rightarrow> error + string list" where
  "example_listdir path =
     (if path = ''snapshots'' then Inr [''a.json'', ''b.json'', ''c.json'']
      else if path = ''daily'' then Inr [''x.json'', ''y.json'', ''z.json'']
      else Inl (Failure ''FileNotFoundError''))"

definition example_load :: "string \<Rightarrow> error + (int \<times> string)" where
  "example_load filepath =
     (if filepath = ''snapshots/a.json'' then Inr (5, ''A'')
      else if filepath = ''snapshots/b.json'' then Inr (5, ''B'')
      else if filepath = ''snapshots/c.json'' then Inr (7, ''C'')
      else if filepath = ''daily/x.json'' then Inr (1, ''X'')
      else if filepath = ''daily/y.json'' then Inr (5, ''Y'')
      else if filepath = ''daily/z.json'' then Inr (9, ''Z'')
      else Inl (Failure ''JSONDecodeError''))"

text \<open>
  A small world for running Reports: a data frame is a list of numbers, the column
  description is its length, a metric is the pair of its class name and one constructor
  argument, and its Result is the argument plus the sum of the current data. The Suite is
  the one of the specification.
\<close>

definition example_calculate ::
  "(string \<times> int) pyobj \<Rightarrow> (int list, unit, unit) input_data
     \<Rightarrow> ((string \<times> int) pyobj \<rightharpoonup> int) \<Rightarrow> error + int" where
  "example_calculate unit data results =
     (case unit of
        MetricObj m \<Rightarrow> Inr (snd m + sum_list (current_data data))
      | OtherObj x \<Rightarrow> Inl (AttributeError x))"

definition example_env ::
  "(string \<times> int, ((string \<times> int) pyobj, int, unit) suite, int list, unit, nat, unit, int, unit)
     collaborators" where
  "example_env =
     \<lparr>process_columns = (\<lambda>d k. length d),
      default_column_mapping = (),
      create_data_definition = (\<lambda>r c k. ()),
      uuid4 = ''generated-id'',
      now = 0,
      default_options = (),
      new_suite = (\<lambda>opts. Suite_init ()),
      reset = Suite_reset,
      verify = Suite_verify,
      add_metric = Suite_add_metric,
      create_additional_features = (\<lambda>s c r dd. (None, None)),
      run_calculate = Suite_run_calculate example_calculate\<rparr>"

definition example_renderer ::
  "((string \<times> int) pyobj, int, unit, int list, int, unit) renderer" where
  "example_renderer =
     \<lparr>render_json = (\<lambda>ctx m include_render incl excl.
         case metric_results ctx m of None \<Rightarrow> Inl (ValueError ''no result'') | Some r \<Rightarrow> Inr r),
      render_pandas = (\<lambda>ctx m.
         case metric_results ctx m of None \<Rightarrow> Inl (ValueError ''no result'') | Some r \<Rightarrow> Inr [r])\<rparr>"

definition example_rendering ::
  "((string \<times> int) pyobj, int, unit, int list, int, unit) rendering" where
  "example_rendering =
     \<lparr>find_metric_renderer = (\<lambda>registry obj.
         case obj of MetricObj m \<Rightarrow> Inr example_renderer | OtherObj x \<Rightarrow> Inl (KeyError x)),
      get_id = (\<lambda>obj. case obj of MetricObj m \<Rightarrow> fst m | OtherObj x \<Rightarrow> x),
      pd_concat = concat\<rparr>"

text \<open>
  The preset of the scenario: \<open>PresetP\<close> emits \<open>UnitB\<close> and \<open>UnitC\<close>. A generator whose
  second element is not a metric.
\<close>

definition PresetP :: "(string \<times> int, nat, (int list, unit, unit) input_data) metric_preset" where
  "PresetP = MetricPreset ''PresetP''
     (\<lambda>data cols. [PresetObj (MetricObj (''UnitB'', 0)), PresetObj (MetricObj (''UnitC'', 0))])"

definition BadGenerator :: "(string \<times> int, nat) generator" where
  "BadGenerator = BaseGenerator ''BadGenerator'' ''BadGenerator()''
     (\<lambda>cols. [MetricObj (''UnitB'', 0), OtherObj ''a string'', MetricObj (''UnitC'', 0)])"

text \<open>A Report as the constructor builds it from a list, with timestamp 5 and id \<open>r1\<close>.\<close>

definition example_report ::
  "(string \<times> int, nat, (int list, unit, unit) input_data) item list
     \<Rightarrow> (string \<times> int, nat, (int list, unit, unit) input_data,
         ((string \<times> int) pyobj, int, unit) suite, int, unit) report" where
  "example_report items =
     Report_init example_env items None (Some 5) (Some ''r1'') None None None None None None"

text \<open>The Report after \<open>run(reference_data=None, current_data=[3])\<close>, and the exception if any.\<close>

definition example_run ::
  "(string \<times> int, nat, (int list, unit, unit) input_data) item list
     \<Rightarrow> (string \<times> int, nat, (int list, unit, unit) input_data,
         ((string \<times> int) pyobj, int, unit) suite, int, unit) report \<times> error option" where
  "example_run items = run example_env (example_report items) None (Some [3]) None"




section \<open>The time-series loader: bounds and one snapshot per timestamp\<close>

lemma skip_iff: "(\<not> before_date_from df t \<and> \<not> after_date_to dt t) = in_range df dt t"
  by (auto simp: before_date_from_def after_date_to_def in_range_def split: option.splits)

lemma load_files_fold:
  "map (\<lambda>f. cls_load (os_path_join path f)) files = map Inr snaps \<Longrightarrow>
   load_files cls_load timestamp_of path df dt files acc = Inr (fold (keep_step timestamp_of df dt) snaps acc)"
proof (induction files arbitrary: snaps acc)
  case Nil then show ?case by simp
next
  case (Cons f fs)
  then obtain s ss where snaps: "snaps = s # ss" and ld: "cls_load (os_path_join path f) = Inr s"
    and rest: "map (\<lambda>f. cls_load (os_path_join path f)) fs = map Inr ss"
    by (cases snaps) auto
  show ?case using Cons.IH[OF rest] ld skip_iff[of df "timestamp_of s" dt]
    by (auto simp: snaps keep_step_def Let_def)
qed

lemma load_files_error:
  "cls_load (os_path_join path f) = Inl e \<Longrightarrow> f \<in> set files \<Longrightarrow>
   \<exists>e'. load_files cls_load timestamp_of path df dt files acc = Inl e'"
  by (induction files arbitrary: acc) (auto simp: Let_def split: sum.splits)

lemma find_append_case: "List.find P (xs @ ys) = (case List.find P xs of None \<Rightarrow> List.find P ys | Some x \<Rightarrow> Some x)"
  by (induction xs) auto

lemma map_of_fold_keep:
  "map_of (fold (keep_step timestamp_of df dt) snaps acc) t =
     (case List.find (\<lambda>s. timestamp_of s = t \<and> in_range df dt t) (rev snaps) of
        Some s \<Rightarrow> Some s | None \<Rightarrow> map_of acc t)"
proof (induction snaps arbitrary: acc)
  case Nil then show ?case by simp
next
  case (Cons s ss)
  have "map_of (keep_step timestamp_of df dt s acc) t =
          (if timestamp_of s = t \<and> in_range df dt t then Some s else map_of acc t)"
    by (auto simp: keep_step_def dict_set_def update_conv')
  then show ?case
    by (simp add: Cons.IH find_append_case split: option.splits)
qed

lemma distinct_fold_keep:
  "distinct (map fst acc) \<Longrightarrow> distinct (map fst (fold (keep_step timestamp_of df dt) snaps acc))"
proof (induction snaps arbitrary: acc)
  case Nil then show ?case by simp
next
  case (Cons s ss)
  have "distinct (map fst (keep_step timestamp_of df dt s acc))"
    using Cons.prems by (simp add: keep_step_def dict_set_def distinct_update)
  then show ?case by (simp add: Cons.IH)
qed

lemma find_SomeD: "List.find P xs = Some x \<Longrightarrow> x \<in> set xs \<and> P x"
  by (induction xs) (auto split: if_splits)

lemma find_exists: "x \<in> set xs \<Longrightarrow> P x \<Longrightarrow> \<exists>y. List.find P xs = Some y"
  by (induction xs) auto

lemma load_time_series_data_fold:
  assumes "listdir path = Inr files"
    and "map (\<lambda>f. cls_load (os_path_join path f)) files = map Inr snaps"
  shows "load_time_series_data listdir cls_load timestamp_of path df dt =
           Inr (fold (keep_step timestamp_of df dt) snaps [])"
  using assms by (simp add: load_time_series_data_def load_files_fold)

lemma fold_keep_entries:
  "((t, s) \<in> set (fold (keep_step timestamp_of df dt) snaps [])) =
     (List.find (\<lambda>s. timestamp_of s = t \<and> in_range df dt t) (rev snaps) = Some s)"
proof -
  let ?r = "fold (keep_step timestamp_of df dt) snaps []"
  have d: "distinct (map fst ?r)" by (rule distinct_fold_keep) simp
  have "((t, s) \<in> set ?r) = (map_of ?r t = Some s)"
    using d by (metis map_of_SomeD map_of_is_SomeI)
  then show ?thesis by (simp add: map_of_fold_keep split: option.splits)
qed

lemma fold_keep_entryD:
  assumes "(t, s) \<in> set (fold (keep_step timestamp_of df dt) snaps [])"
  shows "s \<in> set snaps \<and> timestamp_of s = t \<and> in_range df dt t"
  using assms find_SomeD[of "\<lambda>s. timestamp_of s = t \<and> in_range df dt t" "rev snaps" s]
  by (simp add: fold_keep_entries)

lemma fold_keep_key:
  assumes "s \<in> set snaps" and "in_range df dt (timestamp_of s)"
  shows "\<exists>s'. (timestamp_of s, s') \<in> set (fold (keep_step timestamp_of df dt) snaps []) \<and> s' \<in> set snaps
            \<and> timestamp_of s' = timestamp_of s"
proof -
  obtain y where y: "List.find (\<lambda>x. timestamp_of x = timestamp_of s \<and> in_range df dt (timestamp_of s)) (rev snaps) = Some y"
    using find_exists[of s "rev snaps" "\<lambda>x. timestamp_of x = timestamp_of s \<and> in_range df dt (timestamp_of s)"] assms
    by auto
  from find_SomeD[OF y] y show ?thesis by (auto simp: fold_keep_entries)
qed

text \<open>
  C10: when the directory can be listed and every file can be read, the mapping that
  \<open>load_time_series_data\<close> returns has every timestamp at most once as a key and no two
  of its snapshots share a timestamp; under a timestamp stands the snapshot that was
  listed last among those within the bounds that carry it, so a later file with the same
  timestamp replaces an earlier one.
\<close>

theorem load_time_series_data_one_per_timestamp:
  assumes "listdir path = Inr files"
    and "map (\<lambda>f. cls_load (os_path_join path f)) files = map Inr snaps"
  shows "\<exists>result. load_time_series_data listdir cls_load timestamp_of path date_from date_to = Inr result
           \<and> distinct (dict_keys result)
           \<and> (\<forall>s1 \<in> set (dict_values result). \<forall>s2 \<in> set (dict_values result).
                 timestamp_of s1 = timestamp_of s2 \<longrightarrow> s1 = s2)
           \<and> (\<forall>t. dict_get result t =
                 List.find (\<lambda>s. timestamp_of s = t \<and> in_range date_from date_to t) (rev snaps))"
proof -
  let ?r = "fold (keep_step timestamp_of date_from date_to) snaps []"
  have d: "distinct (map fst ?r)" by (rule distinct_fold_keep) simp
  have uniq: "s1 = s2" if "s1 \<in> snd ` set ?r" "s2 \<in> snd ` set ?r" "timestamp_of s1 = timestamp_of s2" for s1 s2
  proof -
    from that obtain t1 t2 where m: "(t1, s1) \<in> set ?r" "(t2, s2) \<in> set ?r" by auto
    then have "t1 = timestamp_of s1" "t2 = timestamp_of s2" using fold_keep_entryD by fastforce+
    with that m d show ?thesis by (metis eq_key_imp_eq_value)
  qed
  have g: "map_of ?r t = List.find (\<lambda>s. timestamp_of s = t \<and> in_range date_from date_to t) (rev snaps)" for t
    by (simp add: map_of_fold_keep split: option.splits)
  show ?thesis
    using assms load_time_series_data_fold[of listdir path files cls_load snaps timestamp_of date_from date_to] d uniq g
    by (auto simp: dict_keys_def dict_values_def dict_get_def)
qed

text \<open>
  C5 as amended: when the directory can be listed and every file can be read, the keys
  of the result are exactly the timestamps \<open>t\<close> with \<open>date_from \<le> t \<le> date_to\<close> (an absent
  bound is no bound) that some snapshot carries, and every entry is a listed snapshot
  under its own timestamp, within the bounds. When no two different snapshots share a
  timestamp the result holds exactly the snapshots within the bounds. With
  \<open>date_from = date_to\<close> every returned snapshot has that timestamp, and with
  \<open>date_from > date_to\<close> the result is empty.
\<close>

theorem load_time_series_data_in_range:
  assumes "listdir path = Inr files"
    and "map (\<lambda>f. cls_load (os_path_join path f)) files = map Inr snaps"
  shows "\<exists>result. load_time_series_data listdir cls_load timestamp_of path date_from date_to = Inr result
           \<and> set (dict_keys result) = timestamp_of ` {s \<in> set snaps. in_range date_from date_to (timestamp_of s)}
           \<and> (\<forall>(t, s) \<in> set result. s \<in> set snaps \<and> timestamp_of s = t \<and> in_range date_from date_to t)
           \<and> (inj_on timestamp_of (set snaps) \<longrightarrow>
                set (dict_values result) = {s \<in> set snaps. in_range date_from date_to (timestamp_of s)})
           \<and> (\<forall>d. date_from = Some d \<and> date_to = Some d \<longrightarrow>
                (\<forall>s \<in> set (dict_values result). timestamp_of s = d))
           \<and> (\<forall>a b. date_from = Some a \<and> date_to = Some b \<and> b < a \<longrightarrow> result = [])"
proof -
  let ?r = "fold (keep_step timestamp_of date_from date_to) snaps []"
  let ?K = "{s \<in> set snaps. in_range date_from date_to (timestamp_of s)}"
  have ent: "s \<in> set snaps \<and> timestamp_of s = t \<and> in_range date_from date_to t" if "(t, s) \<in> set ?r" for t s
    using fold_keep_entryD[OF that] .
  have keys: "fst ` set ?r = timestamp_of ` ?K"
  proof (intro equalityI subsetI)
    fix t assume "t \<in> fst ` set ?r"
    then obtain s where "(t, s) \<in> set ?r" by auto
    from ent[OF this] show "t \<in> timestamp_of ` ?K" by auto
  next
    fix t assume "t \<in> timestamp_of ` ?K"
    then obtain s where "s \<in> set snaps" "in_range date_from date_to (timestamp_of s)" "t = timestamp_of s" by auto
    with fold_keep_key[of s snaps date_from date_to timestamp_of] show "t \<in> fst ` set ?r" by force
  qed
  have vals: "snd ` set ?r = ?K" if inj: "inj_on timestamp_of (set snaps)"
  proof (intro equalityI subsetI)
    fix s assume "s \<in> snd ` set ?r"
    then obtain t where "(t, s) \<in> set ?r" by auto
    from ent[OF this] show "s \<in> ?K" by auto
  next
    fix s assume "s \<in> ?K"
    then have s: "s \<in> set snaps" "in_range date_from date_to (timestamp_of s)" by auto
    from s fold_keep_key[of s snaps date_from date_to timestamp_of] obtain s' where
      s': "(timestamp_of s, s') \<in> set ?r" "s' \<in> set snaps" "timestamp_of s' = timestamp_of s" by blast
    with inj s have "s' = s" by (auto dest: inj_onD)
    with s' show "s \<in> snd ` set ?r" by force
  qed
  have eq: "timestamp_of s = d" if "date_from = Some d" "date_to = Some d" "s \<in> snd ` set ?r" for d s
  proof -
    from that obtain t where "(t, s) \<in> set ?r" by auto
    from ent[OF this] that show ?thesis by (auto simp: in_range_def)
  qed
  have emp: "?r = []" if "date_from = Some a" "date_to = Some b" "b < a" for a b
  proof (rule ccontr)
    assume "?r \<noteq> []"
    then obtain t s where "(t, s) \<in> set ?r" by (cases ?r) auto
    from ent[OF this] that show False by (auto simp: in_range_def)
  qed
  show ?thesis
    using assms load_time_series_data_fold[of listdir path files cls_load snaps timestamp_of date_from date_to] keys ent vals eq emp
    by (auto simp: dict_keys_def dict_values_def)
qed

lemma example_snapshots_loaded:
  "map (\<lambda>f. example_load (os_path_join ''snapshots'' f)) [''a.json'', ''b.json'', ''c.json'']
     = map Inr [(5, ''A''), (5, ''B''), (7, ''C'')]"
  by (simp add: example_load_def os_path_join_def)

lemma example_daily_loaded:
  "map (\<lambda>f. example_load (os_path_join ''daily'' f)) [''x.json'', ''y.json'', ''z.json'']
     = map Inr [(1, ''X''), (5, ''Y''), (9, ''Z'')]"
  by (simp add: example_load_def os_path_join_def)

text \<open>
  C5 as stated fails on the directory \<open>snapshots\<close> with both bounds 5: the snapshot of
  \<open>a.json\<close> has the timestamp 5, which is within the bounds, and is not in the result.
\<close>

theorem load_time_series_data_keeps_exactly_counterexample:
  "load_time_series_data example_listdir example_load fst ''snapshots'' (Some 5) (Some 5)
     = Inr [(5, (5, ''B''))]
   \<and> example_load (os_path_join ''snapshots'' ''a.json'') = Inr (5, ''A'')
   \<and> in_range (Some 5) (Some 5) (fst (5 :: int, ''A''))
   \<and> (5, ''A'') \<notin> set (dict_values [(5 :: int, (5 :: int, ''B''))])"
  by (simp add: load_time_series_data_def example_listdir_def example_load_def os_path_join_def
      before_date_from_def after_date_to_def dict_set_def in_range_def dict_values_def)

text \<open>
  C5 as amended, at the directory \<open>daily\<close> with the bounds 5 and 9: the snapshots with the
  timestamps 5 and 9 are kept, both bounds included, the one with timestamp 1 is not.
\<close>

theorem load_time_series_data_in_range_witness:
  "example_listdir ''daily'' = Inr [''x.json'', ''y.json'', ''z.json'']
   \<and> inj_on fst (set [(1 :: int, ''X''), (5, ''Y''), (9, ''Z'')])
   \<and> (\<exists>result. load_time_series_data example_listdir example_load fst ''daily'' (Some 5) (Some 9)
          = Inr result
        \<and> set (dict_keys result) = {5, 9}
        \<and> set (dict_values result) = {(5, ''Y''), (9, ''Z'')})"
proof -
  have h1: "example_listdir ''daily'' = Inr [''x.json'', ''y.json'', ''z.json'']"
    by (simp add: example_listdir_def)
  have inj: "inj_on fst (set [(1 :: int, ''X''), (5, ''Y''), (9, ''Z'')])"
    by (simp add: inj_on_def)
  have k: "{s \<in> set [(1 :: int, ''X''), (5, ''Y''), (9, ''Z'')]. in_range (Some 5) (Some 9) (fst s)}
             = {(5, ''Y''), (9, ''Z'')}"
    by (auto simp: in_range_def)
  from h1 example_daily_loaded inj k
    load_time_series_data_in_range[of example_listdir "''daily''" "[''x.json'', ''y.json'', ''z.json'']" example_load
          "[(1, ''X''), (5, ''Y''), (9, ''Z'')]" fst "Some 5" "Some 9"]
  have "\<exists>result. load_time_series_data example_listdir example_load fst ''daily'' (Some 5) (Some 9)
          = Inr result
        \<and> set (dict_keys result) = {5, 9}
        \<and> set (dict_values result) = {(5, ''Y''), (9, ''Z'')}"
    by auto
  with h1 inj show ?thesis by blast
qed

text \<open>
  C10, at the directory \<open>snapshots\<close>: \<open>a.json\<close> and \<open>b.json\<close> both carry the timestamp
  5; the result has one entry for 5, the snapshot of \<open>b.json\<close>, which was listed later.
\<close>

theorem load_time_series_data_one_per_timestamp_witness:
  "example_listdir ''snapshots'' = Inr [''a.json'', ''b.json'', ''c.json'']
   \<and> (\<exists>result. load_time_series_data example_listdir example_load fst ''snapshots'' None None
          = Inr result
        \<and> distinct (dict_keys result)
        \<and> dict_get result 5 = Some (5, ''B'')
        \<and> dict_get result 7 = Some (7, ''C''))"
proof -
  have h1: "example_listdir ''snapshots'' = Inr [''a.json'', ''b.json'', ''c.json'']"
    by (simp add: example_listdir_def)
  from h1 example_snapshots_loaded
    load_time_series_data_one_per_timestamp[of example_listdir "''snapshots''" "[''a.json'', ''b.json'', ''c.json'']" example_load
          "[(5, ''A''), (5, ''B''), (7, ''C'')]" fst None None]
  obtain result where r: "load_time_series_data example_listdir example_load fst ''snapshots'' None None
          = Inr result" "distinct (dict_keys result)"
     "\<And>t. dict_get result t =
                 List.find (\<lambda>s. fst s = t \<and> in_range None None t) (rev [(5, ''A''), (5, ''B''), (7, ''C'')])"
    by blast
  have "dict_get result 5 = Some (5, ''B'')" "dict_get result 7 = Some (7, ''C'')"
    by (simp_all add: r(3) in_range_def)
  with h1 r(1,2) show ?thesis by blast
qed

section \<open>The tabular view: groups\<close>

lemma as_pandas_loop_fold:
  "map (rendered_pandas R ctx) ms = map Inr dfs \<Longrightarrow>
   as_pandas_loop R ctx g ms acc = Inr (fold (group_step R g) (zip ms dfs) acc)"
proof (induction ms arbitrary: dfs acc)
  case Nil then show ?case by simp
next
  case (Cons m ms)
  then obtain df dfs' where dfs: "dfs = df # dfs'" and r: "rendered_pandas R ctx m = Inr df"
    and rest: "map (rendered_pandas R ctx) ms = map Inr dfs'"
    by (cases dfs) auto
  from r obtain rd where rd: "find_metric_renderer R (renderers ctx) m = Inr rd"
    and rp: "render_pandas rd ctx m = Inr df"
    by (auto simp: rendered_pandas_def split: sum.splits)
  show ?case using Cons.IH[OF rest] rd rp
    by (auto simp: dfs group_step_def selected_def Let_def)
qed


lemma map_of_defaultdict_append:
  "map_of (defaultdict_append k v d) k' =
     (if k' = k then Some ((case map_of d k of None \<Rightarrow> [] | Some vs \<Rightarrow> vs) @ [v]) else map_of d k')"
  by (simp add: defaultdict_append_def dict_set_def dict_get_def update_conv')

lemma distinct_defaultdict_append:
  "distinct (map fst d) \<Longrightarrow> distinct (map fst (defaultdict_append k v d))"
  by (simp add: defaultdict_append_def dict_set_def distinct_update)

lemma map_of_fold_group:
  "map_of (fold (group_step R g) ps acc) k =
     (let new = map snd (filter (\<lambda>p. selected R g (fst p) \<and> get_id R (fst p) = k) ps) in
      if new = [] then map_of acc k
      else Some ((case map_of acc k of None \<Rightarrow> [] | Some vs \<Rightarrow> vs) @ new))"
proof (induction ps arbitrary: acc)
  case Nil then show ?case by simp
next
  case (Cons p ps)
  have step: "map_of (group_step R g p acc) k =
     (if selected R g (fst p) \<and> get_id R (fst p) = k
      then Some ((case map_of acc k of None \<Rightarrow> [] | Some vs \<Rightarrow> vs) @ [snd p]) else map_of acc k)"
    by (auto simp: group_step_def map_of_defaultdict_append)
  show ?case
    by (simp add: Cons.IH step Let_def)
qed

lemma distinct_fold_group:
  "distinct (map fst acc) \<Longrightarrow> distinct (map fst (fold (group_step R g) ps acc))"
proof (induction ps arbitrary: acc)
  case Nil then show ?case by simp
next
  case (Cons p ps)
  have "distinct (map fst (group_step R g p acc))"
    using Cons.prems by (simp add: group_step_def distinct_defaultdict_append)
  then show ?case by (simp add: Cons.IH)
qed

lemma frames_nonempty_iff:
  assumes "length ms = length dfs"
  shows "(map snd (filter (\<lambda>p. selected R g (fst p) \<and> get_id R (fst p) = k) (zip ms dfs)) \<noteq> [])
           = (\<exists>m \<in> set ms. selected R g m \<and> get_id R m = k)"
proof -
  have B: "(\<exists>p \<in> set (zip ms dfs). selected R g (fst p) \<and> get_id R (fst p) = k)
          = (\<exists>m \<in> set ms. selected R g m \<and> get_id R m = k)"
  proof
    assume "\<exists>p \<in> set (zip ms dfs). selected R g (fst p) \<and> get_id R (fst p) = k"
    then obtain m df where "(m, df) \<in> set (zip ms dfs)" "selected R g m" "get_id R m = k" by auto
    then show "\<exists>m \<in> set ms. selected R g m \<and> get_id R m = k" by (auto dest: set_zip_leftD)
  next
    assume "\<exists>m \<in> set ms. selected R g m \<and> get_id R m = k"
    then obtain m where m: "m \<in> set ms" "selected R g m" "get_id R m = k" by auto
    from m(1) assms have "m \<in> fst ` set (zip ms dfs)" by (metis map_fst_zip set_map)
    with m show "\<exists>p \<in> set (zip ms dfs). selected R g (fst p) \<and> get_id R (fst p) = k" by auto
  qed
  have A: "(map snd (filter (\<lambda>p. selected R g (fst p) \<and> get_id R (fst p) = k) (zip ms dfs)) \<noteq> [])
      = (\<exists>p \<in> set (zip ms dfs). selected R g (fst p) \<and> get_id R (fst p) = k)"
    unfolding map_is_Nil_conv filter_empty_conv by blast
  show ?thesis by (rule trans[OF A B])
qed

lemma grouped_keys:
  assumes "length ms = length dfs"
  shows "fst ` set (fold (group_step R g) (zip ms dfs) []) = {get_id R m | m. m \<in> set ms \<and> selected R g m}"
proof -
  let ?G = "fold (group_step R g) (zip ms dfs) []"
  have X: "(k \<in> fst ` set ?G) = (\<exists>m \<in> set ms. selected R g m \<and> get_id R m = k)" for k
  proof -
    have "(k \<in> fst ` set ?G) = (map_of ?G k \<noteq> None)"
      by (metis domIff dom_map_of_conv_image_fst)
    also have "\<dots> = (map snd (filter (\<lambda>p. selected R g (fst p) \<and> get_id R (fst p) = k) (zip ms dfs)) \<noteq> [])"
      by (simp add: map_of_fold_group Let_def)
    also have "\<dots> = (\<exists>m \<in> set ms. selected R g m \<and> get_id R m = k)"
      by (rule frames_nonempty_iff[OF assms])
    finally show ?thesis .
  qed
  show ?thesis
  proof (rule set_eqI)
    fix k
    show "(k \<in> fst ` set ?G) = (k \<in> {get_id R m | m. m \<in> set ms \<and> selected R g m})"
      unfolding X by auto
  qed
qed

lemma map_of_concat_frames:
  "map_of (map (\<lambda>(cls, val). (cls, f val)) d) k = map_option f (map_of d k)"
  by (induction d) auto

lemma keys_concat_frames: "map fst (map (\<lambda>(cls, val). (cls, f val)) d) = map fst d"
  by (induction d) auto

lemma frames_all:
  assumes "length ms = length dfs" and "\<forall>m \<in> set ms. get_id R m = k"
  shows "frames_of R k ms dfs = dfs"
proof -
  have "filter (\<lambda>p. get_id R (fst p) = k) (zip ms dfs) = zip ms dfs"
    using assms(2) by (auto simp: filter_id_conv dest: set_zip_leftD)
  then show ?thesis using assms(1) by (simp add: frames_of_def)
qed

lemma selected_None_frames:
  "map snd (filter (\<lambda>p. selected R None (fst p) \<and> get_id R (fst p) = k) ps)
     = map snd (filter (\<lambda>p. get_id R (fst p) = k) ps)"
  by (simp add: selected_def)


text \<open>
  C9 as amended: for a Report all of whose first-level units have a renderer that
  renders them, \<open>as_pandas\<close> without a group returns a bare table, the concatenation of
  all rendered tables, when the first-level units have exactly one distinct identifier;
  in every other case, with no first-level unit as well as with two or more distinct
  identifiers, it returns a dict whose keys are the identifiers present, each with the
  concatenation of the tables of its units.
\<close>

theorem as_pandas_no_group:
  assumes ok: "map (rendered_pandas R (suite_context (inner_suite self))) (first_level_metrics self) = map Inr dfs"
  shows "(card (get_id R ` set (first_level_metrics self)) = 1 \<longrightarrow>
            as_pandas R self None = Inr (DataFrame (pd_concat R dfs)))
       \<and> (card (get_id R ` set (first_level_metrics self)) \<noteq> 1 \<longrightarrow>
            (\<exists>d. as_pandas R self None = Inr (FrameDict d)
               \<and> distinct (dict_keys d)
               \<and> set (dict_keys d) = get_id R ` set (first_level_metrics self)
               \<and> (\<forall>k \<in> set (dict_keys d).
                     dict_get d k = Some (pd_concat R (frames_of R k (first_level_metrics self) dfs)))))"
proof -
  let ?ms = "first_level_metrics self"
  let ?ctx = "suite_context (inner_suite self)"
  let ?G = "fold (group_step R None) (zip ?ms dfs) []"
  let ?res = "map (\<lambda>(cls, val). (cls, pd_concat R val)) ?G"
  let ?ids = "get_id R ` set ?ms"
  have len: "length ?ms = length dfs" using ok by (metis length_map)
  have loop: "as_pandas_loop R ?ctx None ?ms [] = Inr ?G"
    using ok by (rule as_pandas_loop_fold)
  have dG: "distinct (map fst ?G)" by (rule distinct_fold_group) simp
  have kG: "set (map fst ?G) = ?ids"
    using grouped_keys[OF len, of R None] by (auto simp: selected_def)
  have dres: "distinct (dict_keys ?res)" using dG unfolding dict_keys_def keys_concat_frames .
  have kres: "set (dict_keys ?res) = ?ids" using kG unfolding dict_keys_def keys_concat_frames .
  have lenres: "length ?res = card ?ids"
    using dG kG by (metis distinct_card length_map)
  have getres: "dict_get ?res k = Some (pd_concat R (frames_of R k ?ms dfs))" if "k \<in> ?ids" for k
  proof -
    from that have "\<exists>m \<in> set ?ms. selected R None m \<and> get_id R m = k" by (auto simp: selected_def)
    then have "map snd (filter (\<lambda>p. selected R None (fst p) \<and> get_id R (fst p) = k) (zip ?ms dfs)) \<noteq> []"
      using frames_nonempty_iff[OF len, of R None k] by simp
    then have "map_of ?G k = Some (frames_of R k ?ms dfs)"
      by (simp add: map_of_fold_group Let_def selected_None_frames frames_of_def)
    then show ?thesis by (simp add: dict_get_def map_of_concat_frames)
  qed
  have one: "as_pandas R self None = Inr (DataFrame (pd_concat R dfs))" if c: "card ?ids = 1"
  proof -
    from c obtain k where k: "?ids = {k}" by (auto simp: card_1_singleton_iff)
    from lenres c obtain e where e: "?res = [e]" by (cases ?res) auto
    with kres k have fe: "fst e = k" by (simp add: dict_keys_def)
    from k have allk: "\<forall>m \<in> set ?ms. get_id R m = k" by auto
    have "dict_get ?res k = Some (pd_concat R dfs)"
      using getres[of k] k frames_all[OF len allk] by simp
    with e fe have "snd e = pd_concat R dfs" by (cases e) (simp add: dict_get_def)
    with e show ?thesis
      by (simp add: as_pandas_def loop dict_values_def del: fold_simps)
  qed
  have many: "as_pandas R self None = Inr (FrameDict ?res)" if c: "card ?ids \<noteq> 1"
    using c lenres by (simp add: as_pandas_def loop Let_def del: fold_simps)
  show ?thesis using one many dres kres getres by auto
qed


lemmas example_defs = example_run_def example_report_def run_def Report_init_def ReportBase_init_def
  example_env_def run_prepare_def first_input_data_def column_mapping_or_default_def register_def
  record_name_def PresetP_def BadGenerator_def METRIC_PRESETS_def METRIC_GENERATORS_def dict_keys_def
  dict_set_def dict_get_def run_finish_def Suite_init_def Suite_reset_def Suite_verify_def
  Suite_add_metric_def Suite_run_calculate_def example_calculate_def

lemma example_run_scenario:
  "example_run [MetricItem (''UnitA'', 1), PresetItem PresetP] =
   (\<lparr>metrics = [MetricItem (''UnitA'', 1), PresetItem PresetP],
     inner_suite =
       \<lparr>suite_context =
          \<lparr>ctx_metrics = [MetricObj (''UnitA'', 1), MetricObj (''UnitB'', 0), MetricObj (''UnitC'', 0)],
           metric_results = [MetricObj (''UnitA'', 1) \<mapsto> 4, MetricObj (''UnitB'', 0) \<mapsto> 3,
                             MetricObj (''UnitC'', 0) \<mapsto> 3],
           renderers = ()\<rparr>,
        state = COMPLETE\<rparr>,
     first_level_metrics = [MetricObj (''UnitA'', 1), MetricObj (''UnitB'', 0), MetricObj (''UnitC'', 0)],
     report_id = ''r1'', timestamp = 5, metadata = [(''metric_presets'', MList [''PresetP''])],
     tags = [], options = (), columns_info = Some 1\<rparr>, None)"
  by (simp add: example_defs)

lemma example_run_same_class:
  "example_run [MetricItem (''UnitA'', 1), MetricItem (''UnitA'', 2)] =
   (\<lparr>metrics = [MetricItem (''UnitA'', 1), MetricItem (''UnitA'', 2)],
     inner_suite =
       \<lparr>suite_context =
          \<lparr>ctx_metrics = [MetricObj (''UnitA'', 1), MetricObj (''UnitA'', 2)],
           metric_results = [MetricObj (''UnitA'', 1) \<mapsto> 4, MetricObj (''UnitA'', 2) \<mapsto> 5],
           renderers = ()\<rparr>,
        state = COMPLETE\<rparr>,
     first_level_metrics = [MetricObj (''UnitA'', 1), MetricObj (''UnitA'', 2)],
     report_id = ''r1'', timestamp = 5, metadata = [],
     tags = [], options = (), columns_info = Some 1\<rparr>, None)"
  by (simp add: example_defs)

lemma example_run_empty:
  "example_run [] =
   (\<lparr>metrics = [],
     inner_suite =
       \<lparr>suite_context = \<lparr>ctx_metrics = [], metric_results = Map.empty, renderers = ()\<rparr>,
        state = COMPLETE\<rparr>,
     first_level_metrics = [],
     report_id = ''r1'', timestamp = 5, metadata = [],
     tags = [], options = (), columns_info = Some 1\<rparr>, None)"
  by (simp add: example_defs)

lemmas example_view_defs = rendered_pandas_def example_rendering_def example_renderer_def

text \<open>
  C9 as stated fails on a Report with an empty configuration: the run completes, there
  is no identifier at all, and \<open>as_pandas\<close> without a group returns a dict, the empty one.
\<close>

theorem as_pandas_empty_report_counterexample:
  "snd (example_run []) = None
   \<and> first_level_metrics (fst (example_run [])) = []
   \<and> as_pandas example_rendering (fst (example_run [])) None = Inr (FrameDict [])"
  by (simp add: example_run_empty as_pandas_def)

text \<open>
  C9 as amended, at two Reports: two units of the class \<open>UnitA\<close> give the bare table of
  both results; the three units of the scenario give a dict with the table of
  \<open>UnitB\<close> under \<open>UnitB\<close>.
\<close>

theorem as_pandas_no_group_witness:
  "card (get_id example_rendering `
      set (first_level_metrics (fst (example_run [MetricItem (''UnitA'', 1), MetricItem (''UnitA'', 2)])))) = 1
   \<and> as_pandas example_rendering
        (fst (example_run [MetricItem (''UnitA'', 1), MetricItem (''UnitA'', 2)])) None
       = Inr (DataFrame [4, 5])
   \<and> card (get_id example_rendering `
        set (first_level_metrics (fst (example_run [MetricItem (''UnitA'', 1), PresetItem PresetP])))) = 3
   \<and> (\<exists>d. as_pandas example_rendering
              (fst (example_run [MetricItem (''UnitA'', 1), PresetItem PresetP])) None
             = Inr (FrameDict d)
          \<and> dict_get d ''UnitB'' = Some [3])"
proof -
  let ?r1 = "fst (example_run [MetricItem (''UnitA'', 1), MetricItem (''UnitA'', 2)])"
  let ?r3 = "fst (example_run [MetricItem (''UnitA'', 1), PresetItem PresetP])"
  have ok1: "map (rendered_pandas example_rendering (suite_context (inner_suite ?r1)))
               (first_level_metrics ?r1) = map Inr [[4], [5]]"
    by (simp add: example_run_same_class example_view_defs)
  have ok3: "map (rendered_pandas example_rendering (suite_context (inner_suite ?r3)))
               (first_level_metrics ?r3) = map Inr [[4], [3], [3]]"
    by (simp add: example_run_scenario example_view_defs)
  have c1: "card (get_id example_rendering ` set (first_level_metrics ?r1)) = 1"
    by (simp add: example_run_same_class example_rendering_def)
  have c3: "card (get_id example_rendering ` set (first_level_metrics ?r3)) = 3"
    by (simp add: example_run_scenario example_rendering_def)
  from as_pandas_no_group[of example_rendering ?r1 "[[4], [5]]"] ok1 c1
  have a1: "as_pandas example_rendering ?r1 None = Inr (DataFrame [4, 5])"
    by (simp add: example_rendering_def)
  from as_pandas_no_group[of example_rendering ?r3 "[[4], [3], [3]]"] ok3 c3
  obtain d where d: "as_pandas example_rendering ?r3 None = Inr (FrameDict d)"
    "set (dict_keys d) = get_id example_rendering ` set (first_level_metrics ?r3)"
    "\<forall>k \<in> set (dict_keys d). dict_get d k
        = Some (pd_concat example_rendering (frames_of example_rendering k (first_level_metrics ?r3) [[4], [3], [3]]))"
    by auto
  have "''UnitB'' \<in> set (dict_keys d)"
    unfolding d(2) by (simp add: example_run_scenario example_rendering_def)
  with d(3) have "dict_get d ''UnitB''
        = Some (pd_concat example_rendering (frames_of example_rendering ''UnitB'' (first_level_metrics ?r3) [[4], [3], [3]]))"
    by blast
  then have "dict_get d ''UnitB'' = Some [3]"
    by (simp add: example_run_scenario example_rendering_def frames_of_def)
  with c1 a1 c3 d(1) show ?thesis by blast
qed



section \<open>Running a Report\<close>

lemma register_all_eq:
  "register_all env ys self =
     self\<lparr>first_level_metrics := first_level_metrics self @ ys,
          inner_suite := foldl (add_metric env) (inner_suite self) ys\<rparr>"
  by (induction ys arbitrary: self) (simp_all add: register_def)

lemma generated_loop_ok:
  "\<forall>y \<in> set ys. isinstance_Metric y \<Longrightarrow> generated_loop env g ys self = (register_all env ys self, None)"
  by (induction ys arbitrary: self) simp_all

lemma generated_loop_bad:
  "\<forall>y \<in> set ys. isinstance_Metric y \<Longrightarrow> \<not> isinstance_Metric bad \<Longrightarrow>
   generated_loop env g (ys @ bad # zs) self =
     (register_all env ys self, Some (ValueError (''Incorrect metric type in generator '' @ gen_str g)))"
  by (induction ys arbitrary: self) simp_all

lemma generated_loop_first_level:
  "generated_loop env g ys self = (self', err) \<Longrightarrow>
   \<exists>added. first_level_metrics self' = first_level_metrics self @ added
      \<and> (err = None \<longrightarrow> added = ys)"
proof (induction ys arbitrary: self)
  case Nil then show ?case by auto
next
  case (Cons y ys)
  show ?case
  proof (cases "isinstance_Metric y")
    case True
    with Cons.prems have "generated_loop env g ys (register env y self) = (self', err)" by simp
    from Cons.IH[OF this] show ?thesis by (auto simp: register_def)
  next
    case False
    with Cons.prems show ?thesis by auto
  qed
qed

lemma record_name_first_level:
  "record_name key name self = (self', err) \<Longrightarrow> first_level_metrics self' = first_level_metrics self"
  by (auto simp: record_name_def Let_def split: option.splits metadata_value.splits if_splits)

lemma record_name_metrics:
  "record_name key name self = (self', err) \<Longrightarrow> metrics self' = metrics self"
  by (auto simp: record_name_def Let_def split: option.splits metadata_value.splits if_splits)

lemma run_item_first_level:
  assumes "run_item env data cols item self = (self', None)"
  shows "first_level_metrics self' = first_level_metrics self @ expand_item data cols item"
proof (cases item)
  case (GeneratorItem g)
  with assms obtain s1 where g: "generated_loop env g (generate g cols) self = (s1, None)"
    and r: "record_name METRIC_GENERATORS (gen_class g) s1 = (self', None)"
    by (auto split: prod.splits option.splits)
  from generated_loop_first_level[OF g] record_name_first_level[OF r] show ?thesis
    using GeneratorItem by auto
next
  case (PresetItem p)
  with assms record_name_first_level show ?thesis
    by (fastforce simp: register_all_eq)
next
  case (MetricItem m)
  with assms show ?thesis by (auto simp: register_def)
next
  case (OtherItem x)
  with assms show ?thesis by simp
qed

lemma run_items_first_level:
  "run_items env data cols items self = (self', None) \<Longrightarrow>
   first_level_metrics self' = first_level_metrics self @ expand_items data cols items"
proof (induction items arbitrary: self)
  case Nil then show ?case by (simp add: expand_items_def)
next
  case (Cons item items)
  then obtain s1 where i: "run_item env data cols item self = (s1, None)"
    and r: "run_items env data cols items s1 = (self', None)"
    by (auto split: prod.splits option.splits)
  from run_item_first_level[OF i] Cons.IH[OF r] show ?case by (simp add: expand_items_def)
qed

lemma run_item_metrics:
  "run_item env data cols item self = (self', err) \<Longrightarrow> metrics self' = metrics self"
proof (cases item)
  case (GeneratorItem g)
  assume a: "run_item env data cols item self = (self', err)"
  have gl: "generated_loop env g ys s = (s', e) \<Longrightarrow> metrics s' = metrics s" for ys s s' e
    by (induction ys arbitrary: s) (auto simp: register_def split: if_splits)
  from a GeneratorItem show ?thesis
    by (auto split: prod.splits option.splits dest!: gl record_name_metrics)
next
  case (PresetItem p)
  assume "run_item env data cols item self = (self', err)"
  with PresetItem record_name_metrics show ?thesis by (fastforce simp: register_all_eq)
qed (auto simp: register_def)

lemma run_items_metrics:
  "run_items env data cols items self = (self', err) \<Longrightarrow> metrics self' = metrics self"
proof (induction items arbitrary: self)
  case Nil then show ?case by simp
next
  case (Cons item items)
  obtain s1 e1 where i: "run_item env data cols item self = (s1, e1)" by (cases "run_item env data cols item self")
  show ?case
  proof (cases e1)
    case None
    with Cons.prems i have "run_items env data cols items s1 = (self', err)" by simp
    from Cons.IH[OF this] run_item_metrics[OF i] show ?thesis by simp
  next
    case (Some e)
    with Cons.prems i have "self' = s1" by simp
    with run_item_metrics[OF i] show ?thesis by simp
  qed
qed

lemma run_items_append:
  "run_items env data cols (pre @ rest) self =
     (case run_items env data cols pre self of
        (self', Some e) \<Rightarrow> (self', Some e)
      | (self', None) \<Rightarrow> run_items env data cols rest self')"
  by (induction pre arbitrary: self) (auto split: prod.splits option.splits)

lemma run_success:
  assumes "run env self ref (Some cur) cm_arg = (self', None)"
  shows "first_level_metrics self' = first_level_metrics self @
           expand_items (first_input_data env ref cur (column_mapping_or_default env cm_arg))
             (process_columns env cur (column_mapping_or_default env cm_arg)) (metrics self)
       \<and> metrics self' = metrics self"
proof -
  let ?cm = "column_mapping_or_default env cm_arg"
  let ?s1 = "run_prepare env cur ?cm self"
  obtain s2 e2 where ri: "run_items env (first_input_data env ref cur ?cm) (process_columns env cur ?cm) (metrics ?s1) ?s1 = (s2, e2)"
    by (cases "run_items env (first_input_data env ref cur ?cm) (process_columns env cur ?cm) (metrics ?s1) ?s1")
  from assms ri have e2: "e2 = None" and fin: "run_finish env ref cur ?cm s2 = (self', None)"
    by (auto simp: run_def Let_def split: option.splits)
  from fin have "first_level_metrics self' = first_level_metrics s2" "metrics self' = metrics s2"
    by (auto simp: run_finish_def Let_def split: prod.splits)
  moreover from run_items_first_level[OF ri[unfolded e2]] run_items_metrics[OF ri]
  have "first_level_metrics s2 = first_level_metrics self @ expand_items (first_input_data env ref cur ?cm) (process_columns env cur ?cm) (metrics self)"
    "metrics s2 = metrics self"
    by (simp_all add: run_prepare_def)
  ultimately show ?thesis by simp
qed

lemma generated_loop_error:
  "generated_loop env g ys self = (self', Some e) \<Longrightarrow>
   e = ValueError (''Incorrect metric type in generator '' @ gen_str g)"
  by (induction ys arbitrary: self) (auto split: if_splits)

lemma record_name_error:
  "record_name key name self = (self', Some e) \<Longrightarrow> (\<exists>x. e = AttributeError x) \<or> (\<exists>x. e = KeyError x)"
  by (auto simp: record_name_def Let_def split: option.splits metadata_value.splits if_splits)

lemma run_item_error:
  assumes "run_item env data cols item self = (self', Some e)"
  shows "e \<noteq> ValueError ''Current dataset should be present''"
proof (cases item)
  case (GeneratorItem g)
  with assms show ?thesis
    by (auto split: prod.splits option.splits dest!: generated_loop_error record_name_error)
next
  case (PresetItem p)
  with assms show ?thesis by (auto dest!: record_name_error)
next
  case (MetricItem m)
  with assms show ?thesis by simp
next
  case (OtherItem x)
  with assms show ?thesis by auto
qed

lemma run_items_error:
  "run_items env data cols items self = (self', Some e) \<Longrightarrow>
   e \<noteq> ValueError ''Current dataset should be present''"
proof (induction items arbitrary: self)
  case Nil then show ?case by simp
next
  case (Cons item items)
  obtain s1 e1 where i: "run_item env data cols item self = (s1, e1)" by (cases "run_item env data cols item self")
  show ?case
  proof (cases e1)
    case None
    with Cons.prems i have "run_items env data cols items s1 = (self', Some e)" by simp
    from Cons.IH[OF this] show ?thesis .
  next
    case (Some e')
    with Cons.prems i have "e' = e" by simp
    with run_item_error[of env data cols item self s1 e] i Some show ?thesis by simp
  qed
qed

text \<open>
  C2: \<open>run\<close> without current data raises the \<open>ValueError\<close> "Current dataset should be
  present", the exception by which the code reports the missing input, and leaves the
  Report exactly as it was: nothing has been computed or registered. With current data
  present that exception is not raised by \<open>run\<close>: if the run fails with it at all, a
  unit's calculation inside \<open>run_calculate\<close> raised it.
\<close>

theorem run_requires_current_data:
  "run env self ref None cm_arg = (self, Some (ValueError ''Current dataset should be present''))
   \<and> ((\<forall>s d. snd (run_calculate env s d) \<noteq> Some (ValueError ''Current dataset should be present''))
        \<longrightarrow> snd (run env self ref (Some cur) cm_arg)
              \<noteq> Some (ValueError ''Current dataset should be present''))"
proof -
  let ?msg = "ValueError ''Current dataset should be present''"
  let ?cm = "column_mapping_or_default env cm_arg"
  let ?s1 = "run_prepare env cur ?cm self"
  have a: "run env self ref None cm_arg = (self, Some ?msg)"
    by (simp add: run_def)
  have b: "snd (run env self ref (Some cur) cm_arg) \<noteq> Some ?msg"
    if calc: "\<forall>s d. snd (run_calculate env s d) \<noteq> Some ?msg"
  proof -
    obtain s2 e2 where ri: "run_items env (first_input_data env ref cur ?cm) (process_columns env cur ?cm) (metrics ?s1) ?s1 = (s2, e2)"
      by (cases "run_items env (first_input_data env ref cur ?cm) (process_columns env cur ?cm) (metrics ?s1) ?s1")
    show ?thesis
    proof (cases e2)
      case (Some e)
      with ri run_items_error[of env _ _ _ ?s1 s2 e] have "e \<noteq> ?msg" by simp
      with ri Some show ?thesis by (simp add: run_def Let_def)
    next
      case None
      with ri have "run env self ref (Some cur) cm_arg = run_finish env ref cur ?cm s2"
        by (simp add: run_def Let_def)
      moreover have "snd (run_finish env ref cur ?cm s2) \<noteq> Some ?msg"
        using calc by (auto simp: run_finish_def Let_def split: prod.splits) (metis snd_conv)
      ultimately show ?thesis by simp
    qed
  qed
  from a b show ?thesis by blast
qed

text \<open>
  C3 as amended: let a generator of the configuration yield an element that is not a
  Metric, the elements before it being Metrics, and let the items before the generator
  expand without an exception. Then \<open>run\<close> fails with the \<open>ValueError\<close> "Incorrect metric
  type in generator ..." and stops there. The Report is left as the earlier items left
  it, with the generator's elements before the invalid one appended to the first-level
  list and registered with the Suite, in order; the generator's name is not recorded.
\<close>

theorem run_generator_invalid_element:
  assumes "metrics self = pre @ GeneratorItem g # post"
      and "cm = column_mapping_or_default env cm_arg"
      and "run_items env (first_input_data env ref cur cm) (process_columns env cur cm) pre
             (run_prepare env cur cm self) = (self1, None)"
      and "generate g (process_columns env cur cm) = ys @ bad # zs"
      and "\<forall>y \<in> set ys. isinstance_Metric y"
      and "\<not> isinstance_Metric bad"
  shows "run env self ref (Some cur) cm_arg =
           (self1\<lparr>first_level_metrics := first_level_metrics self1 @ ys,
                   inner_suite := foldl (add_metric env) (inner_suite self1) ys\<rparr>,
            Some (ValueError (''Incorrect metric type in generator '' @ gen_str g)))"
proof -
  let ?s0 = "run_prepare env cur cm self"
  have m: "metrics ?s0 = pre @ GeneratorItem g # post" using assms(1) by (simp add: run_prepare_def)
  have "run_item env (first_input_data env ref cur cm) (process_columns env cur cm) (GeneratorItem g) self1
          = (register_all env ys self1, Some (ValueError (''Incorrect metric type in generator '' @ gen_str g)))"
    using generated_loop_bad[OF assms(5,6), of env g zs self1] assms(4) by simp
  then have "run_items env (first_input_data env ref cur cm) (process_columns env cur cm) (metrics ?s0) ?s0
          = (register_all env ys self1, Some (ValueError (''Incorrect metric type in generator '' @ gen_str g)))"
    using assms(3) by (simp add: m run_items_append)
  then show ?thesis using assms(2) by (simp add: run_def Let_def register_all_eq)
qed

text \<open>
  C4: a Report built from the configuration \<open>[a, P]\<close>, where the preset \<open>P\<close> emits the
  units \<open>b\<close> and \<open>c\<close>, is run on present data. The first-level list is then \<open>[a, b, c]\<close>,
  the metadata hold the class name of the preset in the list under \<open>metric_presets\<close>,
  and the expansion has raised nothing: the three units are registered with the Suite
  in that order and what remains of the run is the calculation.
\<close>

theorem run_unit_then_preset:
  "(let P = MetricPreset name (\<lambda>data cols. [PresetObj (MetricObj b), PresetObj (MetricObj c)]);
        r = Report_init env [MetricItem a, PresetItem P] opts ts rid None tgs None None None None;
        cm = column_mapping_or_default env cm_arg;
        r' = fst (run env r ref (Some cur) cm_arg)
    in first_level_metrics r' = [MetricObj a, MetricObj b, MetricObj c]
     \<and> metadata r' = [(METRIC_PRESETS, MList [name])]
     \<and> run env r ref (Some cur) cm_arg =
         run_finish env ref cur cm
           (r\<lparr>columns_info := Some (process_columns env cur cm),
              inner_suite :=
                add_metric env (add_metric env (add_metric env (verify env (reset env (inner_suite r)))
                  (MetricObj a)) (MetricObj b)) (MetricObj c),
              first_level_metrics := [MetricObj a, MetricObj b, MetricObj c],
              metadata := [(METRIC_PRESETS, MList [name])]\<rparr>))"
  by (simp add: Let_def Report_init_def ReportBase_init_def run_def run_prepare_def register_def
      record_name_def dict_keys_def dict_set_def dict_get_def run_finish_def METRIC_PRESETS_def
      split: prod.splits)

text \<open>
  C8 does not hold of \<open>run\<close>: the first-level list is only ever appended to. When two
  runs of one Report with the same inputs both succeed, the second run appends the
  expansion of the configuration once more, after what the first run left.
\<close>

theorem run_twice_accumulates:
  assumes "run env self ref (Some cur) cm_arg = (self1, None)"
      and "run env self1 ref (Some cur) cm_arg = (self2, None)"
  shows "\<exists>added. added = expand_items (first_input_data env ref cur (column_mapping_or_default env cm_arg))
             (process_columns env cur (column_mapping_or_default env cm_arg)) (metrics self)
      \<and> first_level_metrics self1 = first_level_metrics self @ added
      \<and> first_level_metrics self2 = first_level_metrics self @ added @ added"
  using run_success[OF assms(1)] run_success[OF assms(2)] by simp

lemma calculate_units_error:
  "calculate_units calculate data units results = (results', Some e) \<Longrightarrow>
   \<exists>unit rs. calculate unit data rs = Inl e"
proof (induction units arbitrary: results)
  case Nil then show ?case by simp
next
  case (Cons unit units)
  show ?case
  proof (cases "results unit")
    case (Some r)
    with Cons.prems Cons.IH show ?thesis by simp
  next
    case None
    show ?thesis
    proof (cases "calculate unit data results")
      case (Inl e')
      with Cons.prems None show ?thesis by auto
    next
      case (Inr r)
      with Cons.prems None Cons.IH show ?thesis by simp
    qed
  qed
qed

lemma example_calculate_error:
  "snd (run_calculate example_env s d) \<noteq> Some (ValueError ''Current dataset should be present'')"
proof
  assume a: "snd (run_calculate example_env s d) = Some (ValueError ''Current dataset should be present'')"
  obtain results err where c: "calculate_units example_calculate d (ctx_metrics (suite_context s))
      (metric_results (suite_context s)) = (results, err)"
    by (cases "calculate_units example_calculate d (ctx_metrics (suite_context s)) (metric_results (suite_context s))")
  with a have "err = Some (ValueError ''Current dataset should be present'')"
    by (cases err) (simp_all add: example_env_def Suite_run_calculate_def)
  with c calculate_units_error[of example_calculate d _ _ results]
  obtain unit rs where "example_calculate unit d rs = Inl (ValueError ''Current dataset should be present'')"
    by blast
  then show False by (simp add: example_calculate_def split: pyobj.splits)
qed

text \<open>
  C2, at a Report with one unit: without current data the call fails with the
  \<open>ValueError\<close> and returns the Report as built; with the data \<open>[3]\<close> it does not fail so.
\<close>

theorem run_requires_current_data_witness:
  "run example_env (example_report [MetricItem (''UnitA'', 1)]) None None None
     = (example_report [MetricItem (''UnitA'', 1)],
        Some (ValueError ''Current dataset should be present''))
   \<and> snd (example_run [MetricItem (''UnitA'', 1)])
       \<noteq> Some (ValueError ''Current dataset should be present'')"
  using run_requires_current_data[of example_env "example_report [MetricItem (''UnitA'', 1)]"
          None None "[3]"] example_calculate_error
  by (simp add: example_run_def)

lemma example_run_bad_generator:
  "example_run [GeneratorItem BadGenerator] =
   (\<lparr>metrics = [GeneratorItem BadGenerator],
     inner_suite =
       \<lparr>suite_context =
          \<lparr>ctx_metrics = [MetricObj (''UnitB'', 0)], metric_results = Map.empty, renderers = ()\<rparr>,
        state = VERIFIED\<rparr>,
     first_level_metrics = [MetricObj (''UnitB'', 0)],
     report_id = ''r1'', timestamp = 5, metadata = [],
     tags = [], options = (), columns_info = Some 1\<rparr>,
    Some (ValueError ''Incorrect metric type in generator BadGenerator()''))"
  by (simp add: example_defs)

text \<open>
  C3 as stated fails on a Report whose configuration is one generator that yields a
  Metric, then a string: \<open>run\<close> fails, and the Metric yielded before the string is in
  the first-level list, which was empty, and in the unit list of the Suite.
\<close>

theorem run_generator_not_atomic_counterexample:
  "snd (example_run [GeneratorItem BadGenerator])
     = Some (ValueError ''Incorrect metric type in generator BadGenerator()'')
   \<and> first_level_metrics (example_report [GeneratorItem BadGenerator]) = []
   \<and> first_level_metrics (fst (example_run [GeneratorItem BadGenerator])) = [MetricObj (''UnitB'', 0)]
   \<and> ctx_metrics (suite_context (inner_suite (fst (example_run [GeneratorItem BadGenerator]))))
       = [MetricObj (''UnitB'', 0)]"
  by (simp add: example_run_bad_generator) (simp add: example_report_def Report_init_def ReportBase_init_def)

text \<open>
  C3 as amended, at the configuration of a unit followed by that generator: the run
  fails with the \<open>ValueError\<close>, and the first-level list holds the unit and the Metric
  the generator yielded before the string.
\<close>

theorem run_generator_invalid_element_witness:
  "generate BadGenerator (process_columns example_env [3] ())
     = [MetricObj (''UnitB'', 0)] @ OtherObj ''a string'' # [MetricObj (''UnitC'', 0)]
   \<and> snd (example_run [MetricItem (''UnitA'', 1), GeneratorItem BadGenerator])
       = Some (ValueError ''Incorrect metric type in generator BadGenerator()'')
   \<and> first_level_metrics (fst (example_run [MetricItem (''UnitA'', 1), GeneratorItem BadGenerator]))
       = [MetricObj (''UnitA'', 1), MetricObj (''UnitB'', 0)]
   \<and> metadata (fst (example_run [MetricItem (''UnitA'', 1), GeneratorItem BadGenerator])) = []"
proof -
  let ?items = "[MetricItem (''UnitA'', 1), GeneratorItem BadGenerator]"
  let ?r0 = "run_prepare example_env [3] () (example_report ?items)"
  let ?s1 = "register example_env (MetricObj (''UnitA'', 1)) ?r0"
  have h1: "metrics (example_report ?items) = [MetricItem (''UnitA'', 1)] @ GeneratorItem BadGenerator # []"
    by (simp add: example_report_def Report_init_def ReportBase_init_def)
  have h2: "() = column_mapping_or_default example_env None" by simp
  have h3: "run_items example_env (first_input_data example_env None [3] ()) (process_columns example_env [3] ())
              [MetricItem (''UnitA'', 1)] ?r0 = (?s1, None)"
    by simp
  have h4: "generate BadGenerator (process_columns example_env [3] ())
              = [MetricObj (''UnitB'', 0)] @ OtherObj ''a string'' # [MetricObj (''UnitC'', 0)]"
    by (simp add: BadGenerator_def)
  have h5: "\<forall>y \<in> set [MetricObj (''UnitB'', 0 :: int)]. isinstance_Metric y" by simp
  have h6: "\<not> isinstance_Metric (OtherObj ''a string'' :: (string \<times> int) pyobj)" by simp
  note r = run_generator_invalid_element[where self = "example_report ?items" and env = example_env
      and ref = None and cur = "[3]" and cm_arg = None, OF h1 h2 h3 h4 h5 h6]
  have e: "snd (example_run ?items) = Some (ValueError ''Incorrect metric type in generator BadGenerator()'')"
    unfolding example_run_def r by (simp add: BadGenerator_def)
  have f: "first_level_metrics (fst (example_run ?items)) = [MetricObj (''UnitA'', 1), MetricObj (''UnitB'', 0)]"
    unfolding example_run_def r
    by (simp add: register_def run_prepare_def example_report_def Report_init_def ReportBase_init_def)
  have m: "metadata (fst (example_run ?items)) = []"
    unfolding example_run_def r
    by (simp add: register_def run_prepare_def example_report_def Report_init_def ReportBase_init_def)
  from h4 e f m show ?thesis by blast
qed

lemma example_run_scenario_again:
  "run example_env (fst (example_run [MetricItem (''UnitA'', 1), PresetItem PresetP])) None (Some [3]) None =
   (\<lparr>metrics = [MetricItem (''UnitA'', 1), PresetItem PresetP],
     inner_suite =
       \<lparr>suite_context =
          \<lparr>ctx_metrics = [MetricObj (''UnitA'', 1), MetricObj (''UnitB'', 0), MetricObj (''UnitC'', 0)],
           metric_results = [MetricObj (''UnitA'', 1) \<mapsto> 4, MetricObj (''UnitB'', 0) \<mapsto> 3,
                             MetricObj (''UnitC'', 0) \<mapsto> 3],
           renderers = ()\<rparr>,
        state = COMPLETE\<rparr>,
     first_level_metrics = [MetricObj (''UnitA'', 1), MetricObj (''UnitB'', 0), MetricObj (''UnitC'', 0),
                            MetricObj (''UnitA'', 1), MetricObj (''UnitB'', 0), MetricObj (''UnitC'', 0)],
     report_id = ''r1'', timestamp = 5,
     metadata = [(''metric_presets'', MList [''PresetP'', ''PresetP''])],
     tags = [], options = (), columns_info = Some 1\<rparr>, None)"
  unfolding example_run_scenario
  by (simp add: run_def example_env_def run_prepare_def first_input_data_def
      column_mapping_or_default_def register_def record_name_def PresetP_def METRIC_PRESETS_def
      dict_keys_def dict_set_def dict_get_def run_finish_def Suite_reset_def Suite_verify_def
      Suite_add_metric_def Suite_run_calculate_def example_calculate_def)

text \<open>
  C8, at the Report of the scenario run twice on the data \<open>[3]\<close>: both runs succeed;
  after the first the first-level list is \<open>[UnitA, UnitB, UnitC]\<close>, after the second it
  holds each of them twice, and the preset is recorded twice.
\<close>

theorem run_twice_accumulates_witness:
  "snd (example_run [MetricItem (''UnitA'', 1), PresetItem PresetP]) = None
   \<and> snd (run example_env (fst (example_run [MetricItem (''UnitA'', 1), PresetItem PresetP]))
            None (Some [3]) None) = None
   \<and> first_level_metrics (fst (example_run [MetricItem (''UnitA'', 1), PresetItem PresetP]))
       = [MetricObj (''UnitA'', 1), MetricObj (''UnitB'', 0), MetricObj (''UnitC'', 0)]
   \<and> first_level_metrics
        (fst (run example_env (fst (example_run [MetricItem (''UnitA'', 1), PresetItem PresetP]))
                None (Some [3]) None))
       = [MetricObj (''UnitA'', 1), MetricObj (''UnitB'', 0), MetricObj (''UnitC'', 0),
          MetricObj (''UnitA'', 1), MetricObj (''UnitB'', 0), MetricObj (''UnitC'', 0)]
   \<and> metadata
        (fst (run example_env (fst (example_run [MetricItem (''UnitA'', 1), PresetItem PresetP]))
                None (Some [3]) None))
       = [(''metric_presets'', MList [''PresetP'', ''PresetP''])]"
proof -
  let ?items = "[MetricItem (''UnitA'', 1), PresetItem PresetP]"
  let ?r0 = "example_report ?items"
  let ?r1 = "fst (example_run ?items)"
  let ?r2 = "fst (run example_env ?r1 None (Some [3]) None)"
  have h1: "run example_env ?r0 None (Some [3]) None = (?r1, None)"
    by (simp add: example_run_scenario[unfolded example_run_def] example_run_def)
  have h2: "run example_env ?r1 None (Some [3]) None = (?r2, None)"
    by (simp add: example_run_scenario_again)
  from run_twice_accumulates[OF h1 h2]
  have "first_level_metrics ?r2 = first_level_metrics ?r0 @
          expand_items (first_input_data example_env None [3] (column_mapping_or_default example_env None))
            (process_columns example_env [3] (column_mapping_or_default example_env None)) (metrics ?r0)
          @ expand_items (first_input_data example_env None [3] (column_mapping_or_default example_env None))
            (process_columns example_env [3] (column_mapping_or_default example_env None)) (metrics ?r0)"
    by simp
  then have f2: "first_level_metrics ?r2 =
       [MetricObj (''UnitA'', 1), MetricObj (''UnitB'', 0), MetricObj (''UnitC'', 0),
        MetricObj (''UnitA'', 1), MetricObj (''UnitB'', 0), MetricObj (''UnitC'', 0)]"
    by (simp add: expand_items_def example_report_def Report_init_def ReportBase_init_def PresetP_def)
  have f1: "first_level_metrics ?r1 = [MetricObj (''UnitA'', 1), MetricObj (''UnitB'', 0), MetricObj (''UnitC'', 0)]"
    by (simp add: example_run_scenario)
  have e1: "snd (example_run ?items) = None" by (simp add: example_run_scenario)
  have e2: "snd (run example_env ?r1 None (Some [3]) None) = None"
    by (simp add: example_run_scenario_again)
  have m2: "metadata ?r2 = [(''metric_presets'', MList [''PresetP'', ''PresetP''])]"
    by (simp add: example_run_scenario_again)
  from e1 e2 f1 f2 m2 show ?thesis by blast
qed

section \<open>Snapshots: capture and restore\<close>


















section \<open>Results by unit across snapshots\<close>
















end
